theory Spec2Isabelle
  imports Complex_Main "HOL-Library.Log_Nat" "HOL-Library.Multiset" "HOL-Library.AList"
begin

section \<open>Python values used by the pipeline\<close>

text \<open>
  The pipeline of \<^verbatim>\<open>src/etl/transform.py\<close>, \<^verbatim>\<open>src/etl/load.py\<close> and
  \<^verbatim>\<open>dags/sales_etl_dag.py\<close> works on Python dictionaries of untyped values.
  Exceptions are values of \<open>py_error\<close>; a function that may raise returns
  \<open>py_error + 'a\<close> with \<open>Inl\<close> for the exception.
\<close>

datatype py_error =
    ValueError string
  | TypeError
  | OverflowError
  | ZeroDivisionError
  | KeyError string
  | UniqueViolation
  | DataError

subsection \<open>Floats\<close>

text \<open>
  A Python float is an IEEE-754 binary64 value.  Finite values are kept as the rational
  number they denote, every arithmetic result is rounded to the nearest representable
  value (ties to even), and the infinities and NaN are values of their own.  The sign of
  zero is not kept: no operation of the pipeline observes it.
\<close>

datatype pyfloat = Fin rat | PInf | NInf | NaN

definition pow2 :: "int \<Rightarrow> rat" where
  "pow2 k = (if 0 \<le> k then 2 ^ nat k else 1 / 2 ^ nat (- k))"

definition round_half_even :: "rat \<Rightarrow> int" where
  "round_half_even q =
     (let f = \<lfloor>q\<rfloor>; d = q - of_int f
      in if d < 1 / 2 then f else if 1 / 2 < d then f + 1 else if even f then f else f + 1)"

text \<open>\<open>ilog2 r\<close> is the binary exponent of a positive rational: \<open>2 ^ e \<le> r < 2 ^ (e + 1)\<close>.\<close>

definition ilog2 :: "rat \<Rightarrow> int" where
  "ilog2 r = (let (p, q) = quotient_of r; d = bitlen p - bitlen q
              in if pow2 d \<le> r then d else d - 1)"

text \<open>
  Rounding to binary64: 53 significant bits, least exponent \<open>-1022\<close> (below it the
  spacing stays \<open>2 ^ -1074\<close>, the subnormal range), and a result of magnitude
  \<open>2 ^ 1024\<close> or more becomes an infinity.
\<close>

definition round_double :: "rat \<Rightarrow> pyfloat" where
  "round_double r =
     (if r = 0 then Fin 0
      else let e = max (ilog2 \<bar>r\<bar>) (- 1022); ulp = pow2 (e - 52);
               n = round_half_even (\<bar>r\<bar> / ulp)
           in if 1024 \<le> e \<or> (e = 1023 \<and> 2 ^ 53 \<le> n) then (if 0 < r then PInf else NInf)
              else Fin (sgn r * of_int n * ulp))"

fun fadd :: "pyfloat \<Rightarrow> pyfloat \<Rightarrow> pyfloat" where
  "fadd NaN _ = NaN"
| "fadd _ NaN = NaN"
| "fadd PInf NInf = NaN"
| "fadd NInf PInf = NaN"
| "fadd PInf _ = PInf"
| "fadd _ PInf = PInf"
| "fadd NInf _ = NInf"
| "fadd _ NInf = NInf"
| "fadd (Fin a) (Fin b) = round_double (a + b)"

definition fneg :: "pyfloat \<Rightarrow> pyfloat" where
  "fneg x = (case x of Fin a \<Rightarrow> Fin (- a) | PInf \<Rightarrow> NInf | NInf \<Rightarrow> PInf | NaN \<Rightarrow> NaN)"

text \<open>The sign of a float that is not NaN: \<open>-1\<close>, \<open>0\<close> or \<open>1\<close>.\<close>

definition fsign :: "pyfloat \<Rightarrow> int" where
  "fsign x = (case x of Fin a \<Rightarrow> (if a < 0 then - 1 else if a = 0 then 0 else 1)
                | PInf \<Rightarrow> 1 | NInf \<Rightarrow> - 1 | NaN \<Rightarrow> 0)"

definition finf :: "int \<Rightarrow> pyfloat" where
  "finf s = (if s < 0 then NInf else PInf)"

definition fmul :: "pyfloat \<Rightarrow> pyfloat \<Rightarrow> pyfloat" where
  "fmul x y =
     (case (x, y) of
        (NaN, _) \<Rightarrow> NaN
      | (_, NaN) \<Rightarrow> NaN
      | (Fin a, Fin b) \<Rightarrow> round_double (a * b)
      | _ \<Rightarrow> (if fsign x = 0 \<or> fsign y = 0 then NaN else finf (fsign x * fsign y)))"

text \<open>Float division; Python raises \<open>ZeroDivisionError\<close> for a zero divisor.\<close>

definition fdiv :: "pyfloat \<Rightarrow> pyfloat \<Rightarrow> py_error + pyfloat" where
  "fdiv x y =
     (case (x, y) of
        (_, Fin b) \<Rightarrow>
          (if b = 0 then Inl ZeroDivisionError
           else (case x of Fin a \<Rightarrow> Inr (round_double (a / b))
                 | NaN \<Rightarrow> Inr NaN
                 | _ \<Rightarrow> Inr (finf (fsign x * fsign y))))
      | (NaN, _) \<Rightarrow> Inr NaN
      | (_, NaN) \<Rightarrow> Inr NaN
      | (Fin a, _) \<Rightarrow> Inr (Fin 0)
      | _ \<Rightarrow> Inr NaN)"

text \<open>Comparisons: every comparison with NaN is false.\<close>

fun fle :: "pyfloat \<Rightarrow> pyfloat \<Rightarrow> bool" where
  "fle NaN _ = False"
| "fle _ NaN = False"
| "fle NInf _ = True"
| "fle _ PInf = True"
| "fle (Fin a) (Fin b) = (a \<le> b)"
| "fle _ _ = False"

definition flt :: "pyfloat \<Rightarrow> pyfloat \<Rightarrow> bool" where
  "flt x y = (fle x y \<and> x \<noteq> y)"

text \<open>\<open>float(n)\<close> of an int, and the conversion of the int operand of a mixed operation.\<close>

definition float_of_int :: "int \<Rightarrow> py_error + pyfloat" where
  "float_of_int n =
     (case round_double (of_int n) of Fin r \<Rightarrow> Inr (Fin r) | _ \<Rightarrow> Inl OverflowError)"

text \<open>\<open>a / b\<close> on two ints: the correctly rounded quotient.\<close>

definition int_truediv :: "int \<Rightarrow> int \<Rightarrow> py_error + pyfloat" where
  "int_truediv a b =
     (if b = 0 then Inl ZeroDivisionError
      else (case round_double (of_int a / of_int b) of
              Fin r \<Rightarrow> Inr (Fin r) | _ \<Rightarrow> Inl OverflowError))"

text \<open>\<open>x * n\<close> and \<open>x / n\<close> for a float \<open>x\<close> and an int \<open>n\<close>.\<close>

definition fmul_int :: "pyfloat \<Rightarrow> int \<Rightarrow> py_error + pyfloat" where
  "fmul_int x n = (case float_of_int n of Inl e \<Rightarrow> Inl e | Inr y \<Rightarrow> Inr (fmul x y))"

definition fdiv_int :: "pyfloat \<Rightarrow> int \<Rightarrow> py_error + pyfloat" where
  "fdiv_int x n = (case float_of_int n of Inl e \<Rightarrow> Inl e | Inr y \<Rightarrow> fdiv x y)"

text \<open>\<open>x <= 0\<close> and \<open>x > 0\<close> against the int zero.\<close>

definition fle0 :: "pyfloat \<Rightarrow> bool" where
  "fle0 x = fle x (Fin 0)"

definition fgt0 :: "pyfloat \<Rightarrow> bool" where
  "fgt0 x = flt (Fin 0) x"

subsection \<open>Strings\<close>

text \<open>
  Strings are modelled for ASCII text.  \<open>str.strip()\<close> removes the white space at both
  ends; \<open>str.title()\<close> puts the first letter of every run of letters in upper case and
  the others in lower case.
\<close>

definition is_space :: "char \<Rightarrow> bool" where
  "is_space c = (c \<in> set [CHR '' '', CHR 0x09, CHR 0x0A, CHR 0x0B, CHR 0x0C, CHR 0x0D,
                            CHR 0x1C, CHR 0x1D, CHR 0x1E, CHR 0x1F])"

definition strip :: "string \<Rightarrow> string" where
  "strip s = rev (dropWhile is_space (rev (dropWhile is_space s)))"

definition is_lower :: "char \<Rightarrow> bool" where
  "is_lower c = (let n = (of_char c :: nat) in 97 \<le> n \<and> n \<le> 122)"

definition is_upper :: "char \<Rightarrow> bool" where
  "is_upper c = (let n = (of_char c :: nat) in 65 \<le> n \<and> n \<le> 90)"

definition to_upper :: "char \<Rightarrow> char" where
  "to_upper c = (if is_lower c then char_of ((of_char c :: nat) - 32) else c)"

definition to_lower :: "char \<Rightarrow> char" where
  "to_lower c = (if is_upper c then char_of ((of_char c :: nat) + 32) else c)"

fun title_from :: "bool \<Rightarrow> string \<Rightarrow> string" where
  "title_from previous_is_cased [] = []"
| "title_from previous_is_cased (c # cs) =
     (if is_lower c then (if previous_is_cased then c else to_upper c) # title_from True cs
      else if is_upper c then (if previous_is_cased then to_lower c else c) # title_from True cs
      else c # title_from False cs)"

definition title :: "string \<Rightarrow> string" where
  "title s = title_from False s"

definition is_digit :: "char \<Rightarrow> bool" where
  "is_digit c = (c \<in> set ''0123456789'')"

definition digit_val :: "char \<Rightarrow> nat" where
  "digit_val c = (of_char c :: nat) - 48"

definition digit_chr :: "nat \<Rightarrow> char" where
  "digit_chr n = ''0123456789'' ! n"

fun str_of_nat :: "nat \<Rightarrow> string" where
  "str_of_nat n = (if n < 10 then [digit_chr n] else str_of_nat (n div 10) @ [digit_chr (n mod 10)])"

declare str_of_nat.simps [simp del]

text \<open>\<open>str(n)\<close> of an int.\<close>

definition str_of_int :: "int \<Rightarrow> string" where
  "str_of_int i = (if i < 0 then CHR ''-'' # str_of_nat (nat (- i)) else str_of_nat (nat i))"

text \<open>
  A run of digits in which single underscores may separate digits (the \<open>digitpart\<close> of
  Python's numeric literals), read in base ten; \<open>None\<close> when the text is not of that form.
\<close>

fun digitpart_from :: "nat \<Rightarrow> string \<Rightarrow> nat option" where
  "digitpart_from acc [] = Some acc"
| "digitpart_from acc [c] = (if is_digit c then Some (10 * acc + digit_val c) else None)"
| "digitpart_from acc (c # d # cs) =
     (if is_digit c then digitpart_from (10 * acc + digit_val c) (d # cs)
      else if c = CHR ''_'' \<and> is_digit d then digitpart_from acc (d # cs)
      else None)"

definition digitpart :: "string \<Rightarrow> nat option" where
  "digitpart s = (case s of [] \<Rightarrow> None
                  | c # cs \<Rightarrow> if is_digit c then digitpart_from 0 s else None)"

text \<open>An optional sign in front of a text.\<close>

definition split_sign :: "string \<Rightarrow> bool \<times> string" where
  "split_sign s = (case s of [] \<Rightarrow> (False, [])
                   | c # cs \<Rightarrow> if c = CHR ''-'' then (True, cs)
                              else if c = CHR ''+'' then (False, cs) else (False, s))"

text \<open>
  The longest run of decimal digits that \<open>int(s)\<close> reads and \<open>str(n)\<close> writes
  (\<open>sys.get_int_max_str_digits()\<close>, 4300 unless the interpreter is told otherwise):
  beyond it both raise \<open>ValueError\<close>.
\<close>

definition int_max_str_digits :: nat where
  "int_max_str_digits = 4300"

text \<open>
  \<open>int(s)\<close> of a string.  Both failures are a \<open>ValueError\<close>; the texts of the messages
  are shortened.
\<close>

definition int_of_str :: "string \<Rightarrow> py_error + int" where
  "int_of_str s =
     (let (neg, body) = split_sign (strip s)
      in case digitpart body of
           None \<Rightarrow> Inl (ValueError ''invalid literal for int() with base 10'')
         | Some n \<Rightarrow>
             if int_max_str_digits < length (filter is_digit body)
             then Inl (ValueError ''Exceeds the limit (4300 digits) for integer string conversion'')
             else Inr (if neg then - int n else int n))"

text \<open>
  \<open>float(s)\<close> of a string: an optional sign, then \<open>inf\<close>, \<open>infinity\<close> or \<open>nan\<close> in any
  case, or a decimal number with an optional fraction and an optional exponent; the
  value is rounded to the nearest float.
\<close>

definition number_part :: "string \<Rightarrow> rat option" where
  "number_part s =
     (let ip = takeWhile (\<lambda>c. c \<noteq> CHR ''.'') s; rest = dropWhile (\<lambda>c. c \<noteq> CHR ''.'') s
      in case rest of
           [] \<Rightarrow> map_option of_nat (digitpart ip)
         | _ # fp \<Rightarrow>
             (if fp = [] then map_option of_nat (digitpart ip)
              else case digitpart fp of
                     None \<Rightarrow> None
                   | Some f \<Rightarrow>
                       (let k = length (filter is_digit fp)
                        in if ip = [] then Some (of_nat f / 10 ^ k)
                           else map_option (\<lambda>i. of_nat i + of_nat f / 10 ^ k) (digitpart ip))))"

definition exponent_part :: "string \<Rightarrow> int option" where
  "exponent_part s =
     (let (neg, body) = split_sign s
      in map_option (\<lambda>n. if neg then - int n else int n) (digitpart body))"

definition is_exp_mark :: "char \<Rightarrow> bool" where
  "is_exp_mark c = (c = CHR ''e'' \<or> c = CHR ''E'')"

definition float_of_str :: "string \<Rightarrow> py_error + pyfloat" where
  "float_of_str s =
     (let (neg, body) = split_sign (strip s); low = map to_lower body;
          sg = (\<lambda>x. if neg then fneg x else x)
      in if low = ''inf'' \<or> low = ''infinity'' then Inr (sg PInf)
         else if low = ''nan'' then Inr NaN
         else let m = takeWhile (\<lambda>c. \<not> is_exp_mark c) body;
                  rest = dropWhile (\<lambda>c. \<not> is_exp_mark c) body;
                  ex = (case rest of [] \<Rightarrow> Some 0 | _ # ds \<Rightarrow> exponent_part ds)
              in case (number_part m, ex) of
                   (Some v, Some k) \<Rightarrow>
                     Inr (sg (round_double (if 0 \<le> k then v * 10 ^ nat k else v / 10 ^ nat (- k))))
                 | _ \<Rightarrow> Inl (ValueError ''could not convert string to float''))"

subsection \<open>Untyped values\<close>

text \<open>The values a raw record may hold: \<open>None\<close>, a bool, an int, a float or a string.\<close>

datatype pyval = PNone | PBool bool | PInt int | PFloat pyfloat | PStr string

text \<open>\<open>float(v)\<close>.\<close>

fun py_float :: "pyval \<Rightarrow> py_error + pyfloat" where
  "py_float PNone = Inl TypeError"
| "py_float (PBool b) = Inr (Fin (if b then 1 else 0))"
| "py_float (PInt n) = float_of_int n"
| "py_float (PFloat x) = Inr x"
| "py_float (PStr s) = float_of_str s"

text \<open>\<open>int(v)\<close>: a float is truncated towards zero.\<close>

fun py_int :: "pyval \<Rightarrow> py_error + int" where
  "py_int PNone = Inl TypeError"
| "py_int (PBool b) = Inr (if b then 1 else 0)"
| "py_int (PInt n) = Inr n"
| "py_int (PFloat (Fin r)) = Inr (if 0 \<le> r then \<lfloor>r\<rfloor> else - \<lfloor>- r\<rfloor>)"
| "py_int (PFloat NaN) = Inl (ValueError ''cannot convert float NaN to integer'')"
| "py_int (PFloat _) = Inl OverflowError"
| "py_int (PStr s) = int_of_str s"

text \<open>
  \<open>str(v)\<close>.  The shortest decimal text of a float is not modelled: \<open>float_repr\<close> is a
  parameter, and nothing proved here depends on it.  \<open>str\<close> of an int of more than
  4300 digits raises \<open>ValueError\<close>.
\<close>

fun py_str :: "(pyfloat \<Rightarrow> string) \<Rightarrow> pyval \<Rightarrow> py_error + string" where
  "py_str float_repr PNone = Inr ''None''"
| "py_str float_repr (PBool b) = Inr (if b then ''True'' else ''False'')"
| "py_str float_repr (PInt n) =
     (if int_max_str_digits < length (str_of_nat (nat \<bar>n\<bar>))
      then Inl (ValueError ''Exceeds the limit (4300 digits) for integer string conversion'')
      else Inr (str_of_int n))"
| "py_str float_repr (PFloat x) = Inr (float_repr x)"
| "py_str float_repr (PStr s) = Inr s"

subsection \<open>Dates\<close>

text \<open>
  \<open>datetime.strptime(s, '%Y-%m-%d')\<close>: four digits, a month of one or two digits, a day
  of one or two digits (a single digit may follow a space), nothing after the day, and
  the three numbers must be a date of the calendar from year 1 on.  \<open>None\<close> stands for
  the \<open>ValueError\<close> that Python raises.
\<close>

definition is_leap :: "int \<Rightarrow> bool" where
  "is_leap y = (y mod 4 = 0 \<and> (y mod 100 \<noteq> 0 \<or> y mod 400 = 0))"

definition days_in_month :: "int \<Rightarrow> int \<Rightarrow> int" where
  "days_in_month y m =
     (if m = 2 then (if is_leap y then 29 else 28)
      else if m = 4 \<or> m = 6 \<or> m = 9 \<or> m = 11 then 30 else 31)"

definition is_nonzero_digit :: "char \<Rightarrow> bool" where
  "is_nonzero_digit c = (is_digit c \<and> c \<noteq> CHR ''0'')"

fun parse_month :: "string \<Rightarrow> (nat \<times> string) option" where
  "parse_month [] = None"
| "parse_month [a] = (if is_nonzero_digit a then Some (digit_val a, []) else None)"
| "parse_month (a # b # cs) =
     (if a = CHR ''1'' \<and> b \<in> set ''012'' then Some (10 + digit_val b, cs)
      else if a = CHR ''0'' \<and> is_nonzero_digit b then Some (digit_val b, cs)
      else if is_nonzero_digit a then Some (digit_val a, b # cs)
      else None)"

fun parse_day :: "string \<Rightarrow> (nat \<times> string) option" where
  "parse_day [] = None"
| "parse_day [a] = (if is_nonzero_digit a then Some (digit_val a, []) else None)"
| "parse_day (a # b # cs) =
     (if a = CHR ''3'' \<and> b \<in> set ''01'' then Some (30 + digit_val b, cs)
      else if a \<in> set ''12'' \<and> is_digit b then Some (10 * digit_val a + digit_val b, cs)
      else if a = CHR ''0'' \<and> is_nonzero_digit b then Some (digit_val b, cs)
      else if is_nonzero_digit a then Some (digit_val a, b # cs)
      else if a = CHR '' '' \<and> is_nonzero_digit b then Some (digit_val b, cs)
      else None)"

definition strptime :: "string \<Rightarrow> (int \<times> int \<times> int) option" where
  "strptime s =
     (case s of
        y1 # y2 # y3 # y4 # dash # rest \<Rightarrow>
          (if is_digit y1 \<and> is_digit y2 \<and> is_digit y3 \<and> is_digit y4 \<and> dash = CHR ''-''
           then (case parse_month rest of
                   Some (m, dash2 # rest2) \<Rightarrow>
                     (if dash2 = CHR ''-''
                      then (case parse_day rest2 of
                              Some (d, []) \<Rightarrow>
                                (let y = int (1000 * digit_val y1 + 100 * digit_val y2
                                              + 10 * digit_val y3 + digit_val y4)
                                 in if 1 \<le> y \<and> int d \<le> days_in_month y (int m)
                                    then Some (y, int m, int d) else None)
                            | _ \<Rightarrow> None)
                      else None)
                 | _ \<Rightarrow> None)
           else None)
      | _ \<Rightarrow> None)"

text \<open>
  \<open>strftime('%Y-%m')\<close> of a date, as CPython formats it with the C library of Linux:
  the year without leading zeros and the month in two digits.
\<close>

definition pad_left :: "nat \<Rightarrow> string \<Rightarrow> string" where
  "pad_left w s = replicate (w - length s) CHR ''0'' @ s"


subsection \<open>Numbers that are an int or a float\<close>

datatype pynum = PyInt int | PyFloat pyfloat

subsection \<open>Running a loop body that may raise\<close>

text \<open>\<open>map_err f xs\<close> applies \<open>f\<close> from left to right and stops at the first exception.\<close>

fun map_err :: "('a \<Rightarrow> 'e + 'b) \<Rightarrow> 'a list \<Rightarrow> 'e + 'b list" where
  "map_err f [] = Inr []"
| "map_err f (x # xs) =
     (case f x of
        Inl e \<Rightarrow> Inl e
      | Inr y \<Rightarrow> (case map_err f xs of Inl e \<Rightarrow> Inl e | Inr ys \<Rightarrow> Inr (y # ys)))"

section \<open>The cleaner: \<open>DataTransformer.clean_sales_data\<close>\<close>

type_synonym raw_record = "string \<rightharpoonup> pyval"

record clean_record =
  product_name :: string
  sales_amount :: pyfloat
  sale_date :: string
  region :: string
  customer_id :: string
  quantity :: int

text \<open>\<open>record[key]\<close> and \<open>record.get(key, default)\<close>.\<close>

definition dict_item :: "raw_record \<Rightarrow> string \<Rightarrow> py_error + pyval" where
  "dict_item record k = (case record k of None \<Rightarrow> Inl (KeyError k) | Some v \<Rightarrow> Inr v)"

definition dict_get :: "raw_record \<Rightarrow> string \<Rightarrow> pyval \<Rightarrow> pyval" where
  "dict_get record k dflt = (case record k of None \<Rightarrow> dflt | Some v \<Rightarrow> v)"

text \<open>
  The body of the \<open>try\<close> block once the mandatory fields are known to be there: the
  lookups and coercions in the order of the dictionary display, the two business rules
  and the date check.  \<open>Inr None\<close> is a record counted as invalid, \<open>Inl e\<close> an exception
  on its way to the \<open>except\<close> clause.  A \<open>sale_date\<close> that is not a string makes
  \<open>strptime\<close> raise \<open>TypeError\<close>.
\<close>

definition clean_fields :: "(pyfloat \<Rightarrow> string) \<Rightarrow> raw_record \<Rightarrow> py_error + clean_record option" where
  "clean_fields float_repr record =
     (case dict_item record ''product_name'' of Inl e \<Rightarrow> Inl e | Inr name_v \<Rightarrow>
      case py_str float_repr name_v of Inl e \<Rightarrow> Inl e | Inr name \<Rightarrow>
      case dict_item record ''sales_amount'' of Inl e \<Rightarrow> Inl e | Inr amount_v \<Rightarrow>
      case py_float amount_v of Inl e \<Rightarrow> Inl e | Inr amount \<Rightarrow>
      case dict_item record ''sale_date'' of Inl e \<Rightarrow> Inl e | Inr date_v \<Rightarrow>
      case py_str float_repr (dict_get record ''region'' (PStr ''Unknown'')) of
        Inl e \<Rightarrow> Inl e | Inr region_s \<Rightarrow>
      case py_str float_repr (dict_get record ''customer_id'' (PStr [])) of
        Inl e \<Rightarrow> Inl e | Inr customer_s \<Rightarrow>
      case py_int (dict_get record ''quantity'' (PInt 1)) of Inl e \<Rightarrow> Inl e | Inr q \<Rightarrow>
        if fle0 amount then Inr None
        else (case date_v of
                PStr s \<Rightarrow>
                  (case strptime s of
                     None \<Rightarrow> Inr None
                   | Some _ \<Rightarrow>
                       Inr (Some \<lparr> product_name = title (strip name),
                                   sales_amount = amount,
                                   sale_date = s,
                                   region = title (strip region_s),
                                   customer_id = strip customer_s,
                                   quantity = (if q \<le> 0 then 1 else q) \<rparr>))
              | _ \<Rightarrow> Inl TypeError))"

text \<open>
  One turn of the loop: the check of the mandatory fields, then the \<open>try\<close> block, whose
  \<open>except (ValueError, TypeError)\<close> clause counts the record as invalid.  Any other
  exception leaves the function.
\<close>

definition clean_record_step :: "(pyfloat \<Rightarrow> string) \<Rightarrow> raw_record \<Rightarrow> py_error + clean_record option" where
  "clean_record_step float_repr record =
     (if \<not> (\<forall>k \<in> set [''product_name'', ''sales_amount'', ''sale_date'']. record k \<noteq> None)
      then Inr None
      else (case clean_fields float_repr record of
              Inl (ValueError msg) \<Rightarrow> Inr None
            | Inl TypeError \<Rightarrow> Inr None
            | res \<Rightarrow> res))"

fun clean_loop ::
  "(pyfloat \<Rightarrow> string) \<Rightarrow> raw_record list \<Rightarrow> clean_record list \<Rightarrow> nat
     \<Rightarrow> py_error + (clean_record list \<times> nat)" where
  "clean_loop float_repr [] cleaned_data invalid_records = Inr (cleaned_data, invalid_records)"
| "clean_loop float_repr (record # data) cleaned_data invalid_records =
     (case clean_record_step float_repr record of
        Inl e \<Rightarrow> Inl e
      | Inr None \<Rightarrow> clean_loop float_repr data cleaned_data (invalid_records + 1)
      | Inr (Some c) \<Rightarrow> clean_loop float_repr data (cleaned_data @ [c]) invalid_records)"

definition clean_sales_data :: "(pyfloat \<Rightarrow> string) \<Rightarrow> raw_record list \<Rightarrow> py_error + clean_record list" where
  "clean_sales_data float_repr data =
     (case clean_loop float_repr data [] 0 of
        Inl e \<Rightarrow> Inl e
      | Inr (cleaned_data, invalid_records) \<Rightarrow> Inr cleaned_data)"

text \<open>The clean record that one turn of the loop appends, if any.\<close>

definition kept :: "(pyfloat \<Rightarrow> string) \<Rightarrow> raw_record \<Rightarrow> clean_record option" where
  "kept float_repr record =
     (case clean_record_step float_repr record of Inr (Some c) \<Rightarrow> Some c | _ \<Rightarrow> None)"

section \<open>The enricher: \<open>DataTransformer.add_calculated_fields\<close>\<close>

record enriched_record = clean_record +
  total_value :: pyfloat
  sale_month :: "string option"
  sale_year :: "int option"
  sale_quarter :: "string option"




section \<open>The aggregator\<close>

text \<open>
  A Python dictionary keeps its keys in the order of their first insertion, and
  \<open>values()\<close> lists them in that order: the dictionaries of the two reducers are
  association lists, updated in place or extended at the end.
\<close>

subsection \<open>\<open>DataTransformer.aggregate_sales_by_region\<close>\<close>

record region_acc =
  racc_region :: string
  racc_total_sales :: int
  racc_total_revenue :: pyfloat
  racc_total_quantity :: int
  racc_product_count :: int

record region_row =
  rg_region :: string
  rg_total_sales :: int
  rg_total_revenue :: pyfloat
  rg_total_quantity :: int
  rg_product_count :: int
  rg_avg_sale_amount :: pynum
  rg_avg_quantity :: pynum

definition region_init :: "string \<Rightarrow> region_acc" where
  "region_init rg = \<lparr> racc_region = rg, racc_total_sales = 0, racc_total_revenue = Fin 0,
                      racc_total_quantity = 0, racc_product_count = 0 \<rparr>"

definition region_add :: "'a clean_record_scheme \<Rightarrow> region_acc \<Rightarrow> region_acc" where
  "region_add record a =
     a \<lparr> racc_total_sales := racc_total_sales a + 1,
         racc_total_revenue := fadd (racc_total_revenue a) (sales_amount record),
         racc_total_quantity := racc_total_quantity a + quantity record,
         racc_product_count := racc_product_count a + 1 \<rparr>"

definition region_step ::
  "(string \<times> region_acc) list \<Rightarrow> 'a clean_record_scheme \<Rightarrow> (string \<times> region_acc) list" where
  "region_step region_aggregates record =
     (let rg = region record;
          aggs = (if map_of region_aggregates rg = None
                  then AList.update rg (region_init rg) region_aggregates
                  else region_aggregates)
      in AList.map_entry rg (region_add record) aggs)"

definition region_averages :: "region_acc \<Rightarrow> py_error + region_row" where
  "region_averages a =
     (if 0 < racc_total_sales a
      then (case fdiv_int (racc_total_revenue a) (racc_total_sales a) of
              Inl e \<Rightarrow> Inl e
            | Inr av \<Rightarrow>
                (case int_truediv (racc_total_quantity a) (racc_total_sales a) of
                   Inl e \<Rightarrow> Inl e
                 | Inr aq \<Rightarrow>
                     Inr \<lparr> rg_region = racc_region a, rg_total_sales = racc_total_sales a,
                           rg_total_revenue = racc_total_revenue a,
                           rg_total_quantity = racc_total_quantity a,
                           rg_product_count = racc_product_count a,
                           rg_avg_sale_amount = PyFloat av, rg_avg_quantity = PyFloat aq \<rparr>))
      else Inr \<lparr> rg_region = racc_region a, rg_total_sales = racc_total_sales a,
                 rg_total_revenue = racc_total_revenue a,
                 rg_total_quantity = racc_total_quantity a,
                 rg_product_count = racc_product_count a,
                 rg_avg_sale_amount = PyInt 0, rg_avg_quantity = PyInt 0 \<rparr>)"

definition aggregate_sales_by_region :: "'a clean_record_scheme list \<Rightarrow> py_error + region_row list" where
  "aggregate_sales_by_region data = map_err region_averages (map snd (foldl region_step [] data))"

subsection \<open>\<open>DataTransformer.aggregate_sales_by_product\<close>\<close>

record product_acc =
  pacc_product_name :: string
  pacc_total_sales :: int
  pacc_total_revenue :: pyfloat
  pacc_total_quantity :: int
  pacc_regions :: "string set"

record product_row =
  pd_product_name :: string
  pd_total_sales :: int
  pd_total_revenue :: pyfloat
  pd_total_quantity :: int
  pd_region_count :: int
  pd_avg_sale_amount :: pynum
  pd_avg_quantity :: pynum

definition product_init :: "string \<Rightarrow> product_acc" where
  "product_init p = \<lparr> pacc_product_name = p, pacc_total_sales = 0, pacc_total_revenue = Fin 0,
                      pacc_total_quantity = 0, pacc_regions = {} \<rparr>"

definition product_add :: "'a clean_record_scheme \<Rightarrow> product_acc \<Rightarrow> product_acc" where
  "product_add record a =
     a \<lparr> pacc_total_sales := pacc_total_sales a + 1,
         pacc_total_revenue := fadd (pacc_total_revenue a) (sales_amount record),
         pacc_total_quantity := pacc_total_quantity a + quantity record,
         pacc_regions := insert (region record) (pacc_regions a) \<rparr>"

definition product_step ::
  "(string \<times> product_acc) list \<Rightarrow> 'a clean_record_scheme \<Rightarrow> (string \<times> product_acc) list" where
  "product_step product_aggregates record =
     (let p = product_name record;
          aggs = (if map_of product_aggregates p = None
                  then AList.update p (product_init p) product_aggregates
                  else product_aggregates)
      in AList.map_entry p (product_add record) aggs)"

definition product_averages :: "product_acc \<Rightarrow> py_error + product_row" where
  "product_averages a =
     (if 0 < pacc_total_sales a
      then (case fdiv_int (pacc_total_revenue a) (pacc_total_sales a) of
              Inl e \<Rightarrow> Inl e
            | Inr av \<Rightarrow>
                (case int_truediv (pacc_total_quantity a) (pacc_total_sales a) of
                   Inl e \<Rightarrow> Inl e
                 | Inr aq \<Rightarrow>
                     Inr \<lparr> pd_product_name = pacc_product_name a,
                           pd_total_sales = pacc_total_sales a,
                           pd_total_revenue = pacc_total_revenue a,
                           pd_total_quantity = pacc_total_quantity a,
                           pd_region_count = int (card (pacc_regions a)),
                           pd_avg_sale_amount = PyFloat av, pd_avg_quantity = PyFloat aq \<rparr>))
      else Inr \<lparr> pd_product_name = pacc_product_name a, pd_total_sales = pacc_total_sales a,
                 pd_total_revenue = pacc_total_revenue a,
                 pd_total_quantity = pacc_total_quantity a,
                 pd_region_count = int (card (pacc_regions a)),
                 pd_avg_sale_amount = PyInt 0, pd_avg_quantity = PyInt 0 \<rparr>)"

text \<open>
  \<open>list.sort(key=..., reverse=True)\<close> on float keys: a stable sort into descending
  order.  Each element is put in front of the first element of the sorted rest whose
  key is not greater than its own.  For keys without NaN the result of a stable sort is
  unique; the order that CPython produces for NaN keys is not modelled.
\<close>

fun insert_desc :: "('a \<Rightarrow> pyfloat) \<Rightarrow> 'a \<Rightarrow> 'a list \<Rightarrow> 'a list" where
  "insert_desc key x [] = [x]"
| "insert_desc key x (y # ys) =
     (if flt (key x) (key y) then y # insert_desc key x ys else x # y # ys)"

definition sort_reverse :: "('a \<Rightarrow> pyfloat) \<Rightarrow> 'a list \<Rightarrow> 'a list" where
  "sort_reverse key xs = foldr (insert_desc key) xs []"

definition aggregate_sales_by_product :: "'a clean_record_scheme list \<Rightarrow> py_error + product_row list" where
  "aggregate_sales_by_product data =
     (case map_err product_averages (map snd (foldl product_step [] data)) of
        Inl e \<Rightarrow> Inl e
      | Inr result \<Rightarrow> Inr (sort_reverse pd_total_revenue result))"

section \<open>The loader: \<open>DataLoader\<close>\<close>

text \<open>
  The store is reached through \<open>execute_command\<close>, which runs one statement in a
  transaction of its own.  A table is the list of its rows, each with the \<open>id\<close> that
  the \<open>SERIAL\<close> column drew from the table's sequence.  The keys are those that
  \<open>create_tables\<close> declares: \<open>id\<close> is the primary key of every table, \<open>region\<close> is
  unique in \<open>region_aggregates\<close> and \<open>product_name\<close> in \<open>product_aggregates\<close>;
  \<open>sales_data\<close> declares no other key.  The failures of the connection are not
  modelled.
\<close>

record 'r table =
  tbl_rows :: "(int \<times> 'r) list"
  tbl_seq :: int

record database =
  sales_data :: "enriched_record table"
  region_aggregates :: "region_row table"
  product_aggregates :: "product_row table"

subsection \<open>The types of the columns\<close>

text \<open>
  The server converts the values of an \<open>INSERT\<close> to the types of the columns: a number
  is rounded to the scale of a \<open>DECIMAL(p, s)\<close> column, a text is read as a \<open>DATE\<close>, and
  the statement fails with \<open>DataError\<close> when a value has no conversion (a text too long
  for \<open>VARCHAR(n)\<close>, a number beyond the precision of its column or beyond \<open>INTEGER\<close>, a
  text that is no date).  What is stored for a float depends on the decimal text that
  the driver writes for it.

  The predicates below say when a column holds a value as it is submitted:
  \<^item> \<open>VARCHAR(n)\<close> holds a text of at most \<open>n\<close> printable ASCII characters;
  \<^item> \<open>DECIMAL(p, s)\<close> holds a finite number of at most \<open>s\<close> decimals and of absolute value
    below \<open>10 ^ (p - s)\<close> (the text of such a float is its exact decimal expansion);
  \<^item> \<open>INTEGER\<close> holds the ints of 32 bits;
  \<^item> \<open>DATE\<close> holds a date of the calendar written \<open>YYYY-MM-DD\<close>;
  \<^item> a column that is not declared \<open>NOT NULL\<close> holds \<open>None\<close>, as \<open>NULL\<close>.
\<close>

definition is_printable :: "char \<Rightarrow> bool" where
  "is_printable c = (let n = (of_char c :: nat) in 32 \<le> n \<and> n < 127)"

definition varchar_holds :: "nat \<Rightarrow> string \<Rightarrow> bool" where
  "varchar_holds n s = (length s \<le> n \<and> list_all is_printable s)"

definition decimal_holds :: "nat \<Rightarrow> nat \<Rightarrow> pyfloat \<Rightarrow> bool" where
  "decimal_holds p s x =
     (case x of
        Fin r \<Rightarrow> of_int \<lfloor>r * 10 ^ s\<rfloor> = r * 10 ^ s \<and> \<bar>r\<bar> < 10 ^ (p - s)
      | _ \<Rightarrow> False)"

definition integer_holds :: "int \<Rightarrow> bool" where
  "integer_holds n = (- (2 ^ 31) \<le> n \<and> n < 2 ^ 31)"

definition date_holds :: "string \<Rightarrow> bool" where
  "date_holds s =
     (case strptime s of
        None \<Rightarrow> False
      | Some (y, m, d) \<Rightarrow>
          s = pad_left 4 (str_of_int y) @ ''-'' @ pad_left 2 (str_of_int m)
                @ ''-'' @ pad_left 2 (str_of_int d))"

definition decimal_holds_num :: "nat \<Rightarrow> nat \<Rightarrow> pynum \<Rightarrow> bool" where
  "decimal_holds_num p s v =
     (case v of PyInt n \<Rightarrow> \<bar>n\<bar> < 10 ^ (p - s) | PyFloat x \<Rightarrow> decimal_holds p s x)"

definition null_or :: "('a \<Rightarrow> bool) \<Rightarrow> 'a option \<Rightarrow> bool" where
  "null_or holds v = (case v of None \<Rightarrow> True | Some x \<Rightarrow> holds x)"

text \<open>The columns of the three tables, as \<open>create_tables\<close> declares them.\<close>

definition sales_holds :: "enriched_record \<Rightarrow> bool" where
  "sales_holds row =
     (varchar_holds 100 (product_name row) \<and> decimal_holds 10 2 (sales_amount row)
      \<and> date_holds (sale_date row) \<and> varchar_holds 50 (region row)
      \<and> varchar_holds 50 (customer_id row) \<and> integer_holds (quantity row)
      \<and> decimal_holds 10 2 (total_value row) \<and> null_or (varchar_holds 7) (sale_month row)
      \<and> null_or integer_holds (sale_year row) \<and> null_or (varchar_holds 2) (sale_quarter row))"

definition region_holds :: "region_row \<Rightarrow> bool" where
  "region_holds row =
     (varchar_holds 50 (rg_region row) \<and> integer_holds (rg_total_sales row)
      \<and> decimal_holds 12 2 (rg_total_revenue row) \<and> integer_holds (rg_total_quantity row)
      \<and> integer_holds (rg_product_count row) \<and> decimal_holds_num 10 2 (rg_avg_sale_amount row)
      \<and> decimal_holds_num 8 2 (rg_avg_quantity row))"

definition product_holds :: "product_row \<Rightarrow> bool" where
  "product_holds row =
     (varchar_holds 100 (pd_product_name row) \<and> integer_holds (pd_total_sales row)
      \<and> decimal_holds 12 2 (pd_total_revenue row) \<and> integer_holds (pd_total_quantity row)
      \<and> integer_holds (pd_region_count row) \<and> decimal_holds_num 10 2 (pd_avg_sale_amount row)
      \<and> decimal_holds_num 8 2 (pd_avg_quantity row))"

text \<open>
  The row as its table stores it, written with the record of the submitted rows, or
  the exception of the statement.  A row whose values the columns hold is stored as it
  is.  The conversion of any other row (a value rounded, a padded text cut, a date in
  another format, or the statement refused) is the parameter \<open>other\<close>: it is left open,
  and what is proved holds for every conversion.
\<close>

definition sales_columns ::
  "(enriched_record \<Rightarrow> py_error + enriched_record) \<Rightarrow> enriched_record
     \<Rightarrow> py_error + enriched_record" where
  "sales_columns other row = (if sales_holds row then Inr row else other row)"

definition region_columns ::
  "(region_row \<Rightarrow> py_error + region_row) \<Rightarrow> region_row \<Rightarrow> py_error + region_row" where
  "region_columns other row = (if region_holds row then Inr row else other row)"

definition product_columns ::
  "(product_row \<Rightarrow> py_error + product_row) \<Rightarrow> product_row \<Rightarrow> py_error + product_row" where
  "product_columns other row = (if product_holds row then Inr row else other row)"

subsection \<open>The statements\<close>

text \<open>
  \<open>INSERT INTO t (...) VALUES (...)\<close>.  The values are converted when the statement is
  analysed: a statement that fails there changes nothing.  Otherwise the new row takes
  the next value of the sequence, which is used up whether the row is stored or not.
  A row that repeats a key of a stored row is a conflict: with \<open>ON CONFLICT DO NOTHING\<close>
  the statement stores nothing and reports no row, without it the statement fails.
  The result is the number of rows stored.
\<close>

definition sql_insert ::
  "('r \<Rightarrow> py_error + 'r) \<Rightarrow> ('r \<Rightarrow> 'r \<Rightarrow> bool) \<Rightarrow> bool \<Rightarrow> 'r \<Rightarrow> 'r table
     \<Rightarrow> (py_error + int) \<times> 'r table" where
  "sql_insert columns same_key on_conflict_do_nothing row t =
     (case columns row of
        Inl e \<Rightarrow> (Inl e, t)
      | Inr stored \<Rightarrow>
          (let i = tbl_seq t; t1 = t \<lparr> tbl_seq := i + 1 \<rparr>
           in if list_ex (\<lambda>(j, r). j = i \<or> same_key r stored) (tbl_rows t)
              then (if on_conflict_do_nothing then (Inr 0, t1) else (Inl UniqueViolation, t1))
              else (Inr 1, t1 \<lparr> tbl_rows := tbl_rows t @ [(i, stored)] \<rparr>)))"

text \<open>\<open>DELETE FROM t\<close>.\<close>

definition sql_delete_all :: "'r table \<Rightarrow> 'r table" where
  "sql_delete_all t = t \<lparr> tbl_rows := [] \<rparr>"

text \<open>\<open>SELECT COUNT(*) FROM t\<close>.\<close>

definition sql_count :: "'r table \<Rightarrow> int" where
  "sql_count t = int (length (tbl_rows t))"

subsection \<open>\<open>load_sales_data\<close>\<close>

text \<open>
  The parameters of the statement are computed first; the default of
  \<open>record.get('total_value', ...)\<close> is the product \<open>sales_amount * quantity\<close>, which
  Python evaluates even when the record has a \<open>total_value\<close>.  The statement is
  \<open>INSERT ... ON CONFLICT DO NOTHING\<close>, and \<open>loaded_count\<close> counts the rows submitted.
\<close>

fun load_sales_loop ::
  "(enriched_record \<Rightarrow> py_error + enriched_record) \<Rightarrow> enriched_record list \<Rightarrow> int \<Rightarrow> database
     \<Rightarrow> (py_error + int) \<times> database" where
  "load_sales_loop other [] loaded_count db = (Inr loaded_count, db)"
| "load_sales_loop other (record # data) loaded_count db =
     (case fmul_int (sales_amount record) (quantity record) of
        Inl e \<Rightarrow> (Inl e, db)
      | Inr dflt \<Rightarrow>
          (case sql_insert (sales_columns other) (\<lambda>r r'. False) True record (sales_data db) of
             (Inl e, t) \<Rightarrow> (Inl e, db \<lparr> sales_data := t \<rparr>)
           | (Inr n, t) \<Rightarrow>
               load_sales_loop other data (loaded_count + 1) (db \<lparr> sales_data := t \<rparr>)))"

definition load_sales_data ::
  "(enriched_record \<Rightarrow> py_error + enriched_record) \<Rightarrow> enriched_record list \<Rightarrow> database
     \<Rightarrow> (py_error + int) \<times> database" where
  "load_sales_data other data db = load_sales_loop other data 0 db"

subsection \<open>\<open>load_region_aggregates\<close>\<close>

fun load_region_loop ::
  "(region_row \<Rightarrow> py_error + region_row) \<Rightarrow> region_row list \<Rightarrow> int \<Rightarrow> database
     \<Rightarrow> (py_error + int) \<times> database" where
  "load_region_loop other [] loaded_count db = (Inr loaded_count, db)"
| "load_region_loop other (record # data) loaded_count db =
     (case sql_insert (region_columns other) (\<lambda>r r'. rg_region r = rg_region r') False record
             (region_aggregates db) of
        (Inl e, t) \<Rightarrow> (Inl e, db \<lparr> region_aggregates := t \<rparr>)
      | (Inr n, t) \<Rightarrow>
          load_region_loop other data (loaded_count + 1) (db \<lparr> region_aggregates := t \<rparr>))"

definition load_region_aggregates ::
  "(region_row \<Rightarrow> py_error + region_row) \<Rightarrow> region_row list \<Rightarrow> bool \<Rightarrow> database
     \<Rightarrow> (py_error + int) \<times> database" where
  "load_region_aggregates other data confirm_delete db =
     load_region_loop other data 0
       (if confirm_delete
        then db \<lparr> region_aggregates := sql_delete_all (region_aggregates db) \<rparr>
        else db)"

subsection \<open>\<open>load_product_aggregates\<close>\<close>

fun load_product_loop ::
  "(product_row \<Rightarrow> py_error + product_row) \<Rightarrow> product_row list \<Rightarrow> int \<Rightarrow> database
     \<Rightarrow> (py_error + int) \<times> database" where
  "load_product_loop other [] loaded_count db = (Inr loaded_count, db)"
| "load_product_loop other (record # data) loaded_count db =
     (case sql_insert (product_columns other) (\<lambda>r r'. pd_product_name r = pd_product_name r')
             False record (product_aggregates db) of
        (Inl e, t) \<Rightarrow> (Inl e, db \<lparr> product_aggregates := t \<rparr>)
      | (Inr n, t) \<Rightarrow>
          load_product_loop other data (loaded_count + 1) (db \<lparr> product_aggregates := t \<rparr>))"

definition load_product_aggregates ::
  "(product_row \<Rightarrow> py_error + product_row) \<Rightarrow> product_row list \<Rightarrow> bool \<Rightarrow> database
     \<Rightarrow> (py_error + int) \<times> database" where
  "load_product_aggregates other data confirm_delete db =
     (if confirm_delete
      then load_product_loop other data 0
             (db \<lparr> product_aggregates := sql_delete_all (product_aggregates db) \<rparr>)
      else (Inl (ValueError ''Delete operation requires explicit confirmation.''), db))"

text \<open>The call that leaves \<open>confirm_delete\<close> to its default, \<open>True\<close>.\<close>

definition load_product_aggregates_default ::
  "(product_row \<Rightarrow> py_error + product_row) \<Rightarrow> product_row list \<Rightarrow> database
     \<Rightarrow> (py_error + int) \<times> database" where
  "load_product_aggregates_default other data db = load_product_aggregates other data True db"

section \<open>The validator: \<open>validate_data\<close>\<close>

text \<open>
  The summary that \<open>get_data_summary\<close> returns: three row counts and the total revenue
  as a float.  \<open>validate_data\<close> is modelled on that summary.
\<close>

record pipeline_summary =
  sales_records :: int
  regions :: int
  products :: int
  total_revenue :: pyfloat

definition validate_data :: "pipeline_summary \<Rightarrow> py_error + string" where
  "validate_data summary =
     (if sales_records summary = 0 then Inl (ValueError ''No sales records found in database'')
      else if fle0 (total_revenue summary) then Inl (ValueError ''Total revenue should be positive'')
      else if regions summary = 0 then Inl (ValueError ''No regional data found'')
      else if products summary = 0 then Inl (ValueError ''No product data found'')
      else Inr ''Data validation successful'')"

section \<open>Notions used to state the properties of the aggregator\<close>

text \<open>The distinct elements of a list, in the order of their first occurrence.\<close>

definition first_seen :: "'a list \<Rightarrow> 'a list" where
  "first_seen xs = rev (remdups (rev xs))"

text \<open>
  The two reducers run the same loop: \<open>group_step\<close> is its body for any key, initial
  entry and update, and \<open>group_acc\<close> is the entry that the records of one key build up,
  taken in the order of the input.
\<close>

definition group_step ::
  "('r \<Rightarrow> 'k) \<Rightarrow> ('k \<Rightarrow> 'a) \<Rightarrow> ('r \<Rightarrow> 'a \<Rightarrow> 'a) \<Rightarrow> ('k \<times> 'a) list \<Rightarrow> 'r \<Rightarrow> ('k \<times> 'a) list" where
  "group_step key init add aggs r =
     (let k = key r;
          aggs1 = (if map_of aggs k = None then AList.update k (init k) aggs else aggs)
      in AList.map_entry k (add r) aggs1)"

definition group_acc ::
  "('r \<Rightarrow> 'k) \<Rightarrow> ('k \<Rightarrow> 'a) \<Rightarrow> ('r \<Rightarrow> 'a \<Rightarrow> 'a) \<Rightarrow> 'r list \<Rightarrow> 'k \<Rightarrow> 'a" where
  "group_acc key init add data k = foldl (\<lambda>a r. add r a) (init k) (filter (\<lambda>r. key r = k) data)"

text \<open>The sum of a list of floats, accumulated from \<open>0.0\<close> from left to right.\<close>

definition fsum :: "pyfloat list \<Rightarrow> pyfloat" where
  "fsum xs = foldl fadd (Fin 0) xs"

section \<open>Example data\<close>

text \<open>The store right after \<open>create_tables\<close> on a new database: three empty tables.\<close>

definition fresh_database :: database where
  "fresh_database =
     \<lparr> sales_data = \<lparr> tbl_rows = [], tbl_seq = 1 \<rparr>,
       region_aggregates = \<lparr> tbl_rows = [], tbl_seq = 1 \<rparr>,
       product_aggregates = \<lparr> tbl_rows = [], tbl_seq = 1 \<rparr> \<rparr>"

text \<open>An enriched sales record: one laptop sold for 100 on 2024-03-17.\<close>

definition laptop_sale :: enriched_record where
  "laptop_sale =
     \<lparr> product_name = ''Laptop'', sales_amount = Fin 100, sale_date = ''2024-03-17'',
       region = ''North'', customer_id = ''CUST_1000'', quantity = 1,
       total_value = Fin 100, sale_month = Some ''2024-03'', sale_year = Some 2024,
       sale_quarter = Some ''Q1'' \<rparr>"

text \<open>
  The same sale for 100000000, which \<open>DECIMAL(10, 2)\<close> does not hold, and the server
  that refuses with \<open>DataError\<close> the rows that its columns do not hold.
\<close>

definition big_sale :: enriched_record where
  "big_sale = laptop_sale \<lparr> sales_amount := Fin 100000000, total_value := Fin 100000000 \<rparr>"

definition refused :: "'r \<Rightarrow> py_error + 'r" where
  "refused row = Inl DataError"

text \<open>Two product aggregates, and a store that already holds the first of them.\<close>

definition laptop_aggregate :: product_row where
  "laptop_aggregate =
     \<lparr> pd_product_name = ''Laptop'', pd_total_sales = 1, pd_total_revenue = Fin 100,
       pd_total_quantity = 1, pd_region_count = 1, pd_avg_sale_amount = PyFloat (Fin 100),
       pd_avg_quantity = PyFloat (Fin 1) \<rparr>"

definition mouse_aggregate :: product_row where
  "mouse_aggregate =
     \<lparr> pd_product_name = ''Mouse'', pd_total_sales = 2, pd_total_revenue = Fin 50,
       pd_total_quantity = 3, pd_region_count = 2, pd_avg_sale_amount = PyFloat (Fin 25),
       pd_avg_quantity = PyFloat (Fin (3 / 2)) \<rparr>"

definition stale_database :: database where
  "stale_database =
     fresh_database \<lparr> product_aggregates := \<lparr> tbl_rows = [(1, laptop_aggregate)], tbl_seq = 2 \<rparr> \<rparr>"

text \<open>
  The examples hold no float in a text field; \<open>no_float_repr\<close> stands in for the text of
  a float there.
\<close>

definition no_float_repr :: "pyfloat \<Rightarrow> string" where
  "no_float_repr x = []"



definition nan_amount_record :: raw_record where
  "nan_amount_record =
     [''product_name'' \<mapsto> PStr ''laptop'', ''sales_amount'' \<mapsto> PFloat NaN,
      ''sale_date'' \<mapsto> PStr ''2024-03-17'']"

text \<open>A raw record whose quantity is the float infinity.\<close>

definition infinite_quantity_record :: raw_record where
  "infinite_quantity_record =
     [''product_name'' \<mapsto> PStr ''laptop'', ''sales_amount'' \<mapsto> PFloat (Fin 100),
      ''sale_date'' \<mapsto> PStr ''2024-03-17'', ''quantity'' \<mapsto> PFloat PInf]"



text \<open>The two records of the North example: 100 for one unit and 50 for two.\<close>

definition north_sales :: "clean_record list" where
  "north_sales =
     [\<lparr> product_name = ''Laptop'', sales_amount = Fin 100, sale_date = ''2024-03-17'',
        region = ''North'', customer_id = ''CUST_1000'', quantity = 1 \<rparr>,
      \<lparr> product_name = ''Mouse'', sales_amount = Fin 50, sale_date = ''2024-03-18'',
        region = ''North'', customer_id = ''CUST_1001'', quantity = 2 \<rparr>]"

definition north_row :: region_row where
  "north_row =
     \<lparr> rg_region = ''North'', rg_total_sales = 2, rg_total_revenue = Fin 150,
       rg_total_quantity = 3, rg_product_count = 2, rg_avg_sale_amount = PyFloat (Fin 75),
       rg_avg_quantity = PyFloat (Fin (3 / 2)) \<rparr>"

text \<open>
  Six records of four products: the mouse is sold three times in two regions, and the
  laptop and the keyboard have the same revenue.
\<close>

definition sale :: "string \<Rightarrow> string \<Rightarrow> rat \<Rightarrow> int \<Rightarrow> clean_record" where
  "sale p rg amount q =
     \<lparr> product_name = p, sales_amount = Fin amount, sale_date = ''2024-03-17'',
       region = rg, customer_id = ''CUST_1000'', quantity = q \<rparr>"

definition product_sales :: "clean_record list" where
  "product_sales =
     [sale ''Mouse'' ''North'' 50 1, sale ''Laptop'' ''North'' 100 1,
      sale ''Mouse'' ''South'' 50 2, sale ''Keyboard'' ''West'' 100 1,
      sale ''Monitor'' ''South'' 300 1, sale ''Mouse'' ''South'' 10 1]"

definition product_rows :: "product_row list" where
  "product_rows =
     [\<lparr> pd_product_name = ''Monitor'', pd_total_sales = 1, pd_total_revenue = Fin 300,
        pd_total_quantity = 1, pd_region_count = 1, pd_avg_sale_amount = PyFloat (Fin 300),
        pd_avg_quantity = PyFloat (Fin 1) \<rparr>,
      \<lparr> pd_product_name = ''Mouse'', pd_total_sales = 3, pd_total_revenue = Fin 110,
        pd_total_quantity = 4, pd_region_count = 2,
        pd_avg_sale_amount = PyFloat (Fin (5160374573028693 / 140737488355328)),
        pd_avg_quantity = PyFloat (Fin (6004799503160661 / 4503599627370496)) \<rparr>,
      \<lparr> pd_product_name = ''Laptop'', pd_total_sales = 1, pd_total_revenue = Fin 100,
        pd_total_quantity = 1, pd_region_count = 1, pd_avg_sale_amount = PyFloat (Fin 100),
        pd_avg_quantity = PyFloat (Fin 1) \<rparr>,
      \<lparr> pd_product_name = ''Keyboard'', pd_total_sales = 1, pd_total_revenue = Fin 100,
        pd_total_quantity = 1, pd_region_count = 1, pd_avg_sale_amount = PyFloat (Fin 100),
        pd_avg_quantity = PyFloat (Fin 1) \<rparr>]"

section \<open>Properties of the validator\<close>

text \<open>
  Claim C6.  For every summary, \<open>validate_data\<close> raises exactly when
  \<open>sales_records == 0\<close> or \<open>total_revenue <= 0\<close> or \<open>regions == 0\<close> or \<open>products == 0\<close>;
  the error is that of the first check that fails, in this order, and a summary that
  passes the four checks gets the success text.
\<close>

theorem validate_data_checks:
  "((\<exists>e. validate_data s = Inl e) \<longleftrightarrow>
      (sales_records s = 0 \<or> fle0 (total_revenue s) \<or> regions s = 0 \<or> products s = 0))
   \<and> (sales_records s = 0 \<longrightarrow>
        validate_data s = Inl (ValueError ''No sales records found in database''))
   \<and> (sales_records s \<noteq> 0 \<and> fle0 (total_revenue s) \<longrightarrow>
        validate_data s = Inl (ValueError ''Total revenue should be positive''))
   \<and> (sales_records s \<noteq> 0 \<and> \<not> fle0 (total_revenue s) \<and> regions s = 0 \<longrightarrow>
        validate_data s = Inl (ValueError ''No regional data found''))
   \<and> (sales_records s \<noteq> 0 \<and> \<not> fle0 (total_revenue s) \<and> regions s \<noteq> 0 \<and> products s = 0 \<longrightarrow>
        validate_data s = Inl (ValueError ''No product data found''))
   \<and> (sales_records s \<noteq> 0 \<and> \<not> fle0 (total_revenue s) \<and> regions s \<noteq> 0 \<and> products s \<noteq> 0 \<longrightarrow>
        validate_data s = Inr ''Data validation successful'')"
  by (simp add: validate_data_def)

text \<open>
  The two summaries of the claim: the all-zero summary fails on the first check, and
  \<open>{sales_records: 5, total_revenue: 120.5, regions: 2, products: 3}\<close> passes.
\<close>

theorem validate_data_checks_witness:
  "validate_data \<lparr> sales_records = 0, regions = 0, products = 0, total_revenue = Fin 0 \<rparr>
     = Inl (ValueError ''No sales records found in database'')
   \<and> validate_data \<lparr> sales_records = 5, regions = 2, products = 3, total_revenue = Fin (241 / 2) \<rparr>
     = Inr ''Data validation successful''"
  using validate_data_checks [of "\<lparr> sales_records = 0, regions = 0, products = 0, total_revenue = Fin 0 \<rparr>"]
        validate_data_checks [of "\<lparr> sales_records = 5, regions = 2, products = 3, total_revenue = Fin (241 / 2) \<rparr>"]
  by (simp add: fle0_def)

section \<open>Properties of the loader\<close>

subsection \<open>Evaluating the float operations of the examples\<close>

lemma float_of_int_1: "float_of_int 1 = Inr (Fin 1)"
  by code_simp

lemma fmul_int_100_1: "fmul_int (Fin 100) 1 = Inr (Fin 100)"
  by code_simp

lemma fmul_int_big_1: "fmul_int (Fin 100000000) 1 = Inr (Fin 100000000)"
  by code_simp

subsection \<open>The rows of the examples and their columns\<close>

lemma sales_holds_laptop: "sales_holds laptop_sale"
  by code_simp

lemma sales_holds_big: "\<not> sales_holds big_sale"
  by code_simp

lemma product_holds_mouse: "product_holds mouse_aggregate"
  by code_simp

lemma sales_columns_holds: "sales_holds row \<Longrightarrow> sales_columns other row = Inr row"
  by (simp add: sales_columns_def)

lemma product_columns_holds: "product_holds row \<Longrightarrow> product_columns other row = Inr row"
  by (simp add: product_columns_def)

subsection \<open>One insert\<close>

lemma sql_insert_refused:
  "columns row = Inl e \<Longrightarrow> sql_insert columns same_key skip row t = (Inl e, t)"
  by (simp add: sql_insert_def)

lemma sql_insert_cases:
  "columns row = Inr s \<Longrightarrow> sql_insert columns same_key skip row t = (res, t') \<Longrightarrow>
     tbl_seq t' = tbl_seq t + 1
     \<and> ((res = Inr 1 \<and> tbl_rows t' = tbl_rows t @ [(tbl_seq t, s)])
        \<or> (res \<noteq> Inr 1 \<and> tbl_rows t' = tbl_rows t \<and> (skip \<longrightarrow> res = Inr 0)
            \<and> (\<not> skip \<longrightarrow> res = Inl UniqueViolation)))"
  unfolding sql_insert_def Let_def
  by (simp split: if_splits) auto

lemma sql_insert_rows:
  "sql_insert columns same_key skip row t = (res, t') \<Longrightarrow>
     length (tbl_rows t') \<le> length (tbl_rows t) + 1"
  unfolding sql_insert_def Let_def
  by (auto split: sum.splits if_splits)

lemma load_sales_data_one_count:
  "sql_count (sales_data (snd (load_sales_data other [r] db))) \<le> sql_count (sales_data db) + 1"
proof (cases "fmul_int (sales_amount r) (quantity r)")
  case (Inl e)
  then show ?thesis by (simp add: load_sales_data_def sql_count_def)
next
  case (Inr v)
  obtain res t where ins:
    "sql_insert (sales_columns other) (\<lambda>r r'. False) True r (sales_data db) = (res, t)"
    by (cases "sql_insert (sales_columns other) (\<lambda>r r'. False) True r (sales_data db)")
  from sql_insert_rows [OF ins] have "length (tbl_rows t) \<le> length (tbl_rows (sales_data db)) + 1" .
  with Inr ins show ?thesis
    by (cases res) (simp_all add: load_sales_data_def sql_count_def)
qed

lemma load_sales_data_one_refused:
  assumes "fmul_int (sales_amount r) (quantity r) = Inr v"
    and "sales_columns other r = Inl e"
  shows "load_sales_data other [r] db = (Inl e, db)"
  using assms by (simp add: load_sales_data_def sql_insert_refused)

lemma load_sales_data_one_fresh:
  assumes "\<forall>(j, x) \<in> set (tbl_rows (sales_data db)). j < tbl_seq (sales_data db)"
    and "fmul_int (sales_amount r) (quantity r) = Inr v"
    and "sales_columns other r = Inr s"
  shows "load_sales_data other [r] db =
           (Inr 1, db \<lparr> sales_data := (sales_data db) \<lparr> tbl_seq := tbl_seq (sales_data db) + 1,
                     tbl_rows := tbl_rows (sales_data db) @ [(tbl_seq (sales_data db), s)] \<rparr> \<rparr>)"
proof -
  from assms(1) have "\<not> list_ex (\<lambda>(j, x). j = tbl_seq (sales_data db) \<or> False) (tbl_rows (sales_data db))"
    by (force simp: list_ex_iff)
  with assms(2,3) show ?thesis
    by (simp add: load_sales_data_def sql_insert_def Let_def)
qed

subsection \<open>Loading the same sales row twice\<close>

lemma fmul_int_laptop:
  "fmul_int (sales_amount laptop_sale) (quantity laptop_sale) = Inr (Fin 100)"
  by (simp add: laptop_sale_def fmul_int_100_1)

lemma fmul_int_big:
  "fmul_int (sales_amount big_sale) (quantity big_sale) = Inr (Fin 100000000)"
  by (simp add: big_sale_def laptop_sale_def fmul_int_big_1)

lemma load_laptop_once:
  "load_sales_data other [laptop_sale] fresh_database
     = (Inr 1, fresh_database \<lparr> sales_data := \<lparr> tbl_rows = [(1, laptop_sale)], tbl_seq = 2 \<rparr> \<rparr>)"
  using load_sales_data_one_fresh [of fresh_database laptop_sale "Fin 100" other laptop_sale]
  by (simp add: fmul_int_laptop sales_columns_holds [OF sales_holds_laptop] fresh_database_def)

lemma load_laptop_twice:
  "load_sales_data other [laptop_sale] (snd (load_sales_data other [laptop_sale] fresh_database))
     = (Inr 1, fresh_database \<lparr> sales_data :=
                 \<lparr> tbl_rows = [(1, laptop_sale), (2, laptop_sale)], tbl_seq = 3 \<rparr> \<rparr>)"
proof -
  have "load_sales_data other [laptop_sale]
          (fresh_database \<lparr> sales_data := \<lparr> tbl_rows = [(1, laptop_sale)], tbl_seq = 2 \<rparr> \<rparr>)
        = (Inr 1, fresh_database \<lparr> sales_data :=
                 \<lparr> tbl_rows = [(1, laptop_sale), (2, laptop_sale)], tbl_seq = 3 \<rparr> \<rparr>)"
    using load_sales_data_one_fresh [of
          "fresh_database \<lparr> sales_data := \<lparr> tbl_rows = [(1, laptop_sale)], tbl_seq = 2 \<rparr> \<rparr>"
          laptop_sale "Fin 100" other laptop_sale]
    by (simp add: fmul_int_laptop sales_columns_holds [OF sales_holds_laptop])
  then show ?thesis by (simp add: load_laptop_once)
qed

text \<open>
  Claim C1, as the specification states it: loading the same row twice adds at most
  one row to \<open>sales_data\<close>.  On the store that \<open>create_tables\<close> has just created the two
  calls add two rows, whatever the server does with the rows that its columns do not
  hold as they are: the laptop sale is not one of them.
\<close>

theorem load_sales_data_twice_counterexample:
  "\<forall>other. \<not> sql_count (sales_data (snd (load_sales_data other [laptop_sale]
                  (snd (load_sales_data other [laptop_sale] fresh_database)))))
               \<le> sql_count (sales_data fresh_database) + 1"
  unfolding load_laptop_twice by (simp add: sql_count_def fresh_database_def)

text \<open>
  Claim C1, amended.  Two calls of \<open>load_sales_data\<close> with the same row add at most two
  rows to \<open>sales_data\<close>.  When every stored id is below the next value of the sequence
  (as after any run of inserts), the row's product \<open>sales_amount * quantity\<close> is in the
  float range and the values of the row have a conversion to the types of the columns,
  both calls report one record and the converted row is stored twice: the statement
  skips a row only on a conflict with a declared key, and the only key of \<open>sales_data\<close>
  is the generated \<open>id\<close>.  A row whose values the columns hold as they are is its own
  conversion.  When the server refuses the row, the call raises and stores nothing.
\<close>

theorem load_sales_data_twice:
  "sql_count (sales_data (snd (load_sales_data other [r] (snd (load_sales_data other [r] db)))))
     \<le> sql_count (sales_data db) + 2
   \<and> ((\<forall>(j, x) \<in> set (tbl_rows (sales_data db)). j < tbl_seq (sales_data db))
        \<and> (\<exists>v. fmul_int (sales_amount r) (quantity r) = Inr v)
        \<and> sales_columns other r = Inr s
      \<longrightarrow> fst (load_sales_data other [r] db) = Inr 1
          \<and> fst (load_sales_data other [r] (snd (load_sales_data other [r] db))) = Inr 1
          \<and> map snd (tbl_rows (sales_data (snd (load_sales_data other [r]
                                               (snd (load_sales_data other [r] db))))))
              = map snd (tbl_rows (sales_data db)) @ [s, s]
          \<and> sql_count (sales_data (snd (load_sales_data other [r]
                                         (snd (load_sales_data other [r] db)))))
              = sql_count (sales_data db) + 2)
   \<and> (sales_holds r \<longrightarrow> sales_columns other r = Inr r)
   \<and> ((\<exists>v. fmul_int (sales_amount r) (quantity r) = Inr v) \<and> sales_columns other r = Inl e
      \<longrightarrow> load_sales_data other [r] db = (Inl e, db))"
proof (intro conjI impI)
  show "sql_count (sales_data (snd (load_sales_data other [r] (snd (load_sales_data other [r] db)))))
          \<le> sql_count (sales_data db) + 2"
    using load_sales_data_one_count [of other r db]
      load_sales_data_one_count [of other r "snd (load_sales_data other [r] db)"]
    by linarith
next
  assume "sales_holds r"
  then show "sales_columns other r = Inr r" by (rule sales_columns_holds)
next
  assume "(\<exists>v. fmul_int (sales_amount r) (quantity r) = Inr v) \<and> sales_columns other r = Inl e"
  then show "load_sales_data other [r] db = (Inl e, db)"
    using load_sales_data_one_refused by blast
next
  assume h: "(\<forall>(j, x) \<in> set (tbl_rows (sales_data db)). j < tbl_seq (sales_data db))
        \<and> (\<exists>v. fmul_int (sales_amount r) (quantity r) = Inr v)
        \<and> sales_columns other r = Inr s"
  then obtain v where v: "fmul_int (sales_amount r) (quantity r) = Inr v" by blast
  from h have s: "sales_columns other r = Inr s" by blast
  let ?t = "sales_data db"
  let ?db1 = "db \<lparr> sales_data := ?t \<lparr> tbl_seq := tbl_seq ?t + 1,
                     tbl_rows := tbl_rows ?t @ [(tbl_seq ?t, s)] \<rparr> \<rparr>"
  from h v s have one: "load_sales_data other [r] db = (Inr 1, ?db1)"
    by (intro load_sales_data_one_fresh) auto
  from h have "\<forall>(j, x) \<in> set (tbl_rows (sales_data ?db1)). j < tbl_seq (sales_data ?db1)"
    by force
  from load_sales_data_one_fresh [OF this v s]
  have two: "load_sales_data other [r] ?db1 =
     (Inr 1, ?db1 \<lparr> sales_data := (sales_data ?db1) \<lparr> tbl_seq := tbl_seq (sales_data ?db1) + 1,
         tbl_rows := tbl_rows (sales_data ?db1) @ [(tbl_seq (sales_data ?db1), s)] \<rparr> \<rparr>)" .
  show "fst (load_sales_data other [r] db) = Inr 1" by (simp add: one)
  show "fst (load_sales_data other [r] (snd (load_sales_data other [r] db))) = Inr 1"
    by (simp add: one two)
  show "map snd (tbl_rows (sales_data (snd (load_sales_data other [r]
                                               (snd (load_sales_data other [r] db))))))
          = map snd (tbl_rows (sales_data db)) @ [s, s]"
    by (simp add: one two)
  show "sql_count (sales_data (snd (load_sales_data other [r]
                                         (snd (load_sales_data other [r] db)))))
          = sql_count (sales_data db) + 2"
    by (simp add: one two sql_count_def)
qed

text \<open>
  The laptop sale is stored twice in the new store.  A sale of 100000000 is beyond
  \<open>DECIMAL(10, 2)\<close>: the server refuses it, and nothing is stored.
\<close>

theorem load_sales_data_twice_witness:
  "(\<forall>other. map snd (tbl_rows (sales_data (snd (load_sales_data other [laptop_sale]
                (snd (load_sales_data other [laptop_sale] fresh_database))))))
            = [laptop_sale, laptop_sale])
   \<and> load_sales_data refused [big_sale] fresh_database = (Inl DataError, fresh_database)"
proof (intro conjI allI)
  fix other :: "enriched_record \<Rightarrow> py_error + enriched_record"
  show "map snd (tbl_rows (sales_data (snd (load_sales_data other [laptop_sale]
                (snd (load_sales_data other [laptop_sale] fresh_database))))))
            = [laptop_sale, laptop_sale]"
    using load_sales_data_twice [of other laptop_sale fresh_database laptop_sale]
    by (simp add: fresh_database_def sales_columns_holds [OF sales_holds_laptop]
          fmul_int_laptop)
next
  show "load_sales_data refused [big_sale] fresh_database = (Inl DataError, fresh_database)"
    using load_sales_data_twice [of refused big_sale fresh_database _ DataError]
    by (simp add: sales_columns_def sales_holds_big refused_def fmul_int_big)
qed

subsection \<open>Loading the product aggregates\<close>

lemma load_product_loop_Cons:
  "load_product_loop other (row # data) c db =
     (case sql_insert (product_columns other) (\<lambda>r r'. pd_product_name r = pd_product_name r')
             False row (product_aggregates db) of
        (Inl e, t) \<Rightarrow> (Inl e, db \<lparr> product_aggregates := t \<rparr>)
      | (Inr n, t) \<Rightarrow> load_product_loop other data (c + 1) (db \<lparr> product_aggregates := t \<rparr>))"
  by simp

text \<open>
  The rows that the loop adds are the conversions of a prefix of \<open>data\<close>, in order; the
  prefix is all of \<open>data\<close> when the loop returns.
\<close>

lemma load_product_loop_rows:
  "load_product_loop other data c db = (res, db') \<Longrightarrow>
     sales_data db' = sales_data db \<and> region_aggregates db' = region_aggregates db
     \<and> (\<exists>k ss. k \<le> length data
            \<and> map snd (tbl_rows (product_aggregates db'))
                = map snd (tbl_rows (product_aggregates db)) @ ss
            \<and> list_all2 (\<lambda>r s. product_columns other r = Inr s) (take k data) ss
            \<and> (\<forall>n. res = Inr n \<longrightarrow> n = c + int (length data) \<and> k = length data))"
proof (induction data arbitrary: c db)
  case Nil
  then show ?case by auto
next
  case (Cons row data)
  let ?key = "\<lambda>r r'. pd_product_name r = pd_product_name r'"
  obtain r t where ins: "sql_insert (product_columns other) ?key False row (product_aggregates db) = (r, t)"
    by (cases "sql_insert (product_columns other) ?key False row (product_aggregates db)")
  show ?case
  proof (cases "product_columns other row")
    case (Inl e)
    from sql_insert_refused [of "product_columns other" row e ?key False "product_aggregates db"] Inl ins
    have "r = Inl e" "t = product_aggregates db"
      by simp_all
    with Cons.prems ins have "res = Inl e" "db' = db \<lparr> product_aggregates := product_aggregates db \<rparr>"
      by (simp_all add: load_product_loop_Cons)
    then show ?thesis
      by (intro conjI exI [of _ 0] exI [of _ "[]"]) simp_all
  next
    case (Inr s)
    note c = sql_insert_cases [OF Inr ins]
    show ?thesis
    proof (cases "r = Inr 1")
      case False
      with c have r: "r = Inl UniqueViolation" and t: "tbl_rows t = tbl_rows (product_aggregates db)"
        by auto
      from Cons.prems ins r have "res = Inl UniqueViolation" "db' = db \<lparr> product_aggregates := t \<rparr>"
        by (simp_all add: load_product_loop_Cons)
      with t show ?thesis
        by (intro conjI exI [of _ 0] exI [of _ "[]"]) simp_all
    next
      case True
      with c have t: "tbl_rows t = tbl_rows (product_aggregates db) @ [(tbl_seq (product_aggregates db), s)]"
        by auto
      from Cons.prems ins True
      have run: "load_product_loop other data (c + 1) (db \<lparr> product_aggregates := t \<rparr>) = (res, db')"
        by (simp add: load_product_loop_Cons)
      have ih: "sales_data db' = sales_data db \<and> region_aggregates db' = region_aggregates db
          \<and> (\<exists>k ss. k \<le> length data
                \<and> map snd (tbl_rows (product_aggregates db')) = map snd (tbl_rows t) @ ss
                \<and> list_all2 (\<lambda>r s. product_columns other r = Inr s) (take k data) ss
                \<and> (\<forall>n. res = Inr n \<longrightarrow> n = c + 1 + int (length data) \<and> k = length data))"
        using Cons.IH [OF run] by simp
      then obtain k ss where k: "k \<le> length data"
        "map snd (tbl_rows (product_aggregates db')) = map snd (tbl_rows t) @ ss"
        "list_all2 (\<lambda>r s. product_columns other r = Inr s) (take k data) ss"
        "\<forall>n. res = Inr n \<longrightarrow> n = c + 1 + int (length data) \<and> k = length data"
        by blast
      from ih have rest: "sales_data db' = sales_data db" "region_aggregates db' = region_aggregates db"
        by blast+
      have k1: "Suc k \<le> length (row # data)" using k(1) by simp
      have k2: "map snd (tbl_rows (product_aggregates db'))
                  = map snd (tbl_rows (product_aggregates db)) @ (s # ss)"
        by (simp add: k(2) t)
      have k3: "list_all2 (\<lambda>r s. product_columns other r = Inr s) (take (Suc k) (row # data)) (s # ss)"
        using k(3) Inr by simp
      have k4: "\<forall>n. res = Inr n \<longrightarrow> n = c + int (length (row # data)) \<and> Suc k = length (row # data)"
      proof (intro allI impI)
        fix n assume "res = Inr n"
        with k(4) have "n = c + 1 + int (length data)" "k = length data" by simp_all
        then show "n = c + int (length (row # data)) \<and> Suc k = length (row # data)" by simp
      qed
      have "\<exists>k ss. k \<le> length (row # data)
            \<and> map snd (tbl_rows (product_aggregates db'))
                = map snd (tbl_rows (product_aggregates db)) @ ss
            \<and> list_all2 (\<lambda>r s. product_columns other r = Inr s) (take k (row # data)) ss
            \<and> (\<forall>n. res = Inr n \<longrightarrow> n = c + int (length (row # data)) \<and> k = length (row # data))"
        using k1 k2 k3 k4 by (intro exI [of _ "Suc k"] exI [of _ "s # ss"] conjI)
      with rest show ?thesis by (intro conjI)
    qed
  qed
qed

text \<open>
  Claim C5.  With \<open>confirm_delete=False\<close> the call raises the \<open>ValueError\<close> that asks for
  an explicit confirmation and leaves the store as it was: nothing is deleted and
  nothing inserted.  With \<open>confirm_delete=True\<close>, which is the default, the rows that
  were in \<open>product_aggregates\<close> are deleted before the inserts: afterwards the table
  holds none of the old rows; it holds, in order, the rows that the inserts stored for
  a prefix of \<open>data\<close> (each as the columns convert it), and for all of \<open>data\<close> when the
  call returns.  The other tables are left as they were.
\<close>

theorem load_product_aggregates_confirm:
  "load_product_aggregates other data False db
     = (Inl (ValueError ''Delete operation requires explicit confirmation.''), db)
   \<and> load_product_aggregates_default other data db = load_product_aggregates other data True db
   \<and> (\<forall>res db'. load_product_aggregates other data True db = (res, db') \<longrightarrow>
         sales_data db' = sales_data db \<and> region_aggregates db' = region_aggregates db
         \<and> (\<exists>k \<le> length data.
               list_all2 (\<lambda>r s. product_columns other r = Inr s) (take k data)
                 (map snd (tbl_rows (product_aggregates db'))))
         \<and> (\<forall>n. res = Inr n \<longrightarrow> n = int (length data)
                  \<and> list_all2 (\<lambda>r s. product_columns other r = Inr s) data
                      (map snd (tbl_rows (product_aggregates db')))))"
proof -
  let ?R = "\<lambda>r s. product_columns other r = Inr s"
  let ?db0 = "db \<lparr> product_aggregates := sql_delete_all (product_aggregates db) \<rparr>"
  have f: "load_product_aggregates other data False db
     = (Inl (ValueError ''Delete operation requires explicit confirmation.''), db)"
    by (simp add: load_product_aggregates_def)
  have d: "load_product_aggregates_default other data db = load_product_aggregates other data True db"
    by (simp add: load_product_aggregates_default_def)
  have t: "\<forall>res db'. load_product_aggregates other data True db = (res, db') \<longrightarrow>
         sales_data db' = sales_data db \<and> region_aggregates db' = region_aggregates db
         \<and> (\<exists>k \<le> length data. list_all2 ?R (take k data)
                 (map snd (tbl_rows (product_aggregates db'))))
         \<and> (\<forall>n. res = Inr n \<longrightarrow> n = int (length data)
                  \<and> list_all2 ?R data (map snd (tbl_rows (product_aggregates db'))))"
  proof (intro allI impI)
    fix res db'
    assume run: "load_product_aggregates other data True db = (res, db')"
    have loop: "load_product_loop other data 0 ?db0 = (res, db')"
      using run by (simp add: load_product_aggregates_def)
    note rows = load_product_loop_rows [OF loop]
    have k1: "sales_data db' = sales_data db"
      using rows by simp
    have k2: "region_aggregates db' = region_aggregates db"
      using rows by simp
    from rows obtain k ss where k: "k \<le> length data"
      "map snd (tbl_rows (product_aggregates db'))
         = map snd (tbl_rows (product_aggregates ?db0)) @ ss"
      "list_all2 ?R (take k data) ss"
      "\<forall>n. res = Inr n \<longrightarrow> n = 0 + int (length data) \<and> k = length data"
      by blast
    have "tbl_rows (product_aggregates ?db0) = []"
      by (simp add: sql_delete_all_def)
    with k(2) have ss: "map snd (tbl_rows (product_aggregates db')) = ss"
      by simp
    have a: "\<exists>k \<le> length data. list_all2 ?R (take k data)
                 (map snd (tbl_rows (product_aggregates db')))"
      using k(1,3) unfolding ss by (rule_tac x = k in exI) simp
    have b: "\<forall>n. res = Inr n \<longrightarrow> n = int (length data)
                  \<and> list_all2 ?R data (map snd (tbl_rows (product_aggregates db')))"
    proof (intro allI impI)
      fix n assume "res = Inr n"
      with k(4) have "n = int (length data)" "k = length data" by simp_all
      with k(3) show "n = int (length data)
                  \<and> list_all2 ?R data (map snd (tbl_rows (product_aggregates db')))"
        unfolding ss by simp
    qed
    show "sales_data db' = sales_data db \<and> region_aggregates db' = region_aggregates db
         \<and> (\<exists>k \<le> length data. list_all2 ?R (take k data)
                 (map snd (tbl_rows (product_aggregates db'))))
         \<and> (\<forall>n. res = Inr n \<longrightarrow> n = int (length data)
                  \<and> list_all2 ?R data (map snd (tbl_rows (product_aggregates db'))))"
      by (rule conjI [OF k1 conjI [OF k2 conjI [OF a b]]])
  qed
  show ?thesis
    by (rule conjI [OF f conjI [OF d t]])
qed

text \<open>
  On a store that holds the laptop aggregate: the call without confirmation leaves it
  there, the call with confirmation replaces it by the mouse aggregate, which the
  columns hold as it is.
\<close>

theorem load_product_aggregates_confirm_witness:
  "\<forall>other.
     load_product_aggregates other [mouse_aggregate] False stale_database
       = (Inl (ValueError ''Delete operation requires explicit confirmation.''), stale_database)
     \<and> load_product_aggregates other [mouse_aggregate] True stale_database
       = (Inr 1, stale_database \<lparr> product_aggregates :=
                   \<lparr> tbl_rows = [(2, mouse_aggregate)], tbl_seq = 3 \<rparr> \<rparr>)
     \<and> map snd (tbl_rows (product_aggregates
                  (snd (load_product_aggregates other [mouse_aggregate] True stale_database))))
       = [mouse_aggregate]"
proof
  fix other
  show "load_product_aggregates other [mouse_aggregate] False stale_database
       = (Inl (ValueError ''Delete operation requires explicit confirmation.''), stale_database)
     \<and> load_product_aggregates other [mouse_aggregate] True stale_database
       = (Inr 1, stale_database \<lparr> product_aggregates :=
                   \<lparr> tbl_rows = [(2, mouse_aggregate)], tbl_seq = 3 \<rparr> \<rparr>)
     \<and> map snd (tbl_rows (product_aggregates
                  (snd (load_product_aggregates other [mouse_aggregate] True stale_database))))
       = [mouse_aggregate]"
    using load_product_aggregates_confirm [of other "[mouse_aggregate]" stale_database]
    by (simp add: load_product_aggregates_def sql_delete_all_def sql_insert_def
          product_columns_holds [OF product_holds_mouse] stale_database_def fresh_database_def)
qed

section \<open>Properties of the cleaner\<close>

subsection \<open>The records that the loop keeps\<close>


lemma clean_loop_result:
  "clean_loop fr data cleaned n = Inr (out, m) \<Longrightarrow>
     out = cleaned @ List.map_filter (kept fr) data
     \<and> m = n + length (filter (\<lambda>r. clean_record_step fr r = Inr None) data)"
proof (induction data arbitrary: cleaned n)
  case Nil
  then show ?case by (simp add: List.map_filter_simps)
next
  case (Cons r data)
  show ?case
  proof (cases "clean_record_step fr r")
    case (Inl e)
    with Cons.prems show ?thesis by simp
  next
    case (Inr x)
    show ?thesis
    proof (cases x)
      case None
      with Inr Cons.prems have "clean_loop fr data cleaned (n + 1) = Inr (out, m)" by simp
      from Cons.IH [OF this] None Inr show ?thesis
        by (simp add: List.map_filter_simps kept_def)
    next
      case (Some c)
      with Inr Cons.prems have "clean_loop fr data (cleaned @ [c]) n = Inr (out, m)" by simp
      from Cons.IH [OF this] Some Inr show ?thesis
        by (simp add: List.map_filter_simps kept_def)
    qed
  qed
qed

lemma clean_sales_data_result:
  "clean_sales_data fr data = Inr out \<Longrightarrow> out = List.map_filter (kept fr) data"
  using clean_loop_result [of fr data "[]" 0 out]
  by (auto simp: clean_sales_data_def split: sum.splits prod.splits)

lemma kept_Some: "kept fr r = Some c \<longleftrightarrow> clean_record_step fr r = Inr (Some c)"
  by (simp add: kept_def split: sum.splits option.splits)

lemma in_set_map_filter:
  "c \<in> set (List.map_filter f xs) \<longleftrightarrow> (\<exists>r \<in> set xs. f r = Some c)"
  by (induction xs) (auto simp: List.map_filter_simps split: option.splits)

lemma clean_sales_data_set:
  "clean_sales_data fr data = Inr out \<Longrightarrow>
     c \<in> set out \<longleftrightarrow> (\<exists>r \<in> set data. clean_record_step fr r = Inr (Some c))"
  by (drule clean_sales_data_result) (simp add: in_set_map_filter kept_Some)


lemma clean_fields_invariant:
  "clean_fields fr r = Inr (Some c) \<Longrightarrow>
     \<not> fle0 (sales_amount c) \<and> 0 < quantity c \<and> strptime (sale_date c) \<noteq> None"
  unfolding clean_fields_def
  by (auto split: sum.splits if_splits pyval.splits option.splits)

lemma clean_record_step_invariant:
  "clean_record_step fr r = Inr (Some c) \<Longrightarrow>
     \<not> fle0 (sales_amount c) \<and> 0 < quantity c \<and> strptime (sale_date c) \<noteq> None"
  unfolding clean_record_step_def
  by (auto split: if_splits sum.splits py_error.splits dest: clean_fields_invariant)

lemma clean_sales_data_invariant:
  "clean_sales_data fr data = Inr out \<Longrightarrow> c \<in> set out \<Longrightarrow>
     \<not> fle0 (sales_amount c) \<and> 0 < quantity c \<and> strptime (sale_date c) \<noteq> None"
  by (auto simp: clean_sales_data_set dest: clean_record_step_invariant)

subsection \<open>Rejection and the quantity\<close>








subsection \<open>The invariant of the clean records\<close>

text \<open>
  Claim C7 says that every record of the output has \<open>sales_amount > 0\<close>.  The check of
  the source rejects \<open>sales_amount <= 0\<close>, which is false for NaN: a record whose amount
  is NaN is kept, and its amount is not positive.
\<close>

theorem clean_sales_data_keeps_nan:
  "clean_sales_data no_float_repr [nan_amount_record]
     = Inr [\<lparr> product_name = ''Laptop'', sales_amount = NaN, sale_date = ''2024-03-17'',
              region = ''Unknown'', customer_id = [], quantity = 1 \<rparr>]
   \<and> \<not> fgt0 NaN"
  by code_simp

text \<open>
  The \<open>except\<close> clause catches \<open>ValueError\<close> and \<open>TypeError\<close> only: the \<open>OverflowError\<close>
  of \<open>int(float('inf'))\<close> leaves the function.
\<close>

lemma clean_sales_data_overflow:
  "clean_sales_data no_float_repr [infinite_quantity_record] = Inl OverflowError"
  by code_simp

section \<open>Properties of the enricher\<close>

subsection \<open>Loops that may raise, digits and dates\<close>

lemma map_err_Inr:
  "map_err f xs = Inr ys \<longleftrightarrow> list_all2 (\<lambda>x y. f x = Inr y) xs ys"
proof (induction xs arbitrary: ys)
  case Nil
  then show ?case by auto
next
  case (Cons x xs)
  show ?case
  proof (cases "f x")
    case (Inl e)
    then show ?thesis by (auto simp: list_all2_Cons1)
  next
    case (Inr y)
    then show ?thesis
      using Cons.IH by (cases "map_err f xs") (auto simp: list_all2_Cons1)
  qed
qed
























subsection \<open>The calculated fields\<close>







section \<open>Properties of the aggregator\<close>

subsection \<open>The dictionary after the loop\<close>

text \<open>
  After the loop the dictionary holds one entry for each key of the input, in the order
  in which the keys first occur, and the entry of a key is what the records of that
  key build up.
\<close>

lemma first_seen_Nil [simp]: "first_seen [] = []"
  by (simp add: first_seen_def)

lemma first_seen_snoc:
  "first_seen (xs @ [x]) = (if x \<in> set xs then first_seen xs else first_seen xs @ [x])"
  by (simp add: first_seen_def)

lemma set_first_seen [simp]: "set (first_seen xs) = set xs"
  by (simp add: first_seen_def)

lemma distinct_first_seen [simp]: "distinct (first_seen xs)"
  by (simp add: first_seen_def)

lemma map_of_keyed:
  "map_of (map (\<lambda>k. (k, h k)) ks) k = (if k \<in> set ks then Some (h k) else None)"
  by (induction ks) auto

lemma update_keyed_new:
  "k \<notin> set ks \<Longrightarrow> AList.update k v (map (\<lambda>k. (k, h k)) ks) = map (\<lambda>k. (k, h k)) ks @ [(k, v)]"
  by (induction ks) auto

lemma map_entry_keyed:
  "distinct ks \<Longrightarrow> AList.map_entry k f (map (\<lambda>k'. (k', h k')) ks)
     = map (\<lambda>k'. (k', if k' = k then f (h k') else h k')) ks"
proof (induction ks)
  case Nil
  then show ?case by simp
next
  case (Cons a ks)
  show ?case
  proof (cases "a = k")
    case True
    with Cons.prems have "k \<notin> set ks" by simp
    then have "map (\<lambda>k'. (k', if k' = k then f (h k') else h k')) ks = map (\<lambda>k'. (k', h k')) ks"
      by (intro map_cong) auto
    with True show ?thesis by simp
  next
    case False
    with Cons show ?thesis by simp
  qed
qed

lemma map_entry_keyed_last:
  "k \<notin> set ks \<Longrightarrow> AList.map_entry k f (map (\<lambda>k'. (k', h k')) ks @ [(k, v)])
     = map (\<lambda>k'. (k', h k')) ks @ [(k, f v)]"
  by (induction ks) auto

lemma group_acc_snoc:
  "group_acc key init add (xs @ [x]) k
     = (if key x = k then add x (group_acc key init add xs k) else group_acc key init add xs k)"
  by (simp add: group_acc_def)

lemma group_acc_new:
  "k \<notin> key ` set xs \<Longrightarrow> group_acc key init add xs k = init k"
proof -
  assume "k \<notin> key ` set xs"
  then have "filter (\<lambda>r. key r = k) xs = []" by (auto simp: filter_empty_conv)
  then show ?thesis by (simp add: group_acc_def)
qed

lemma group_fold:
  "foldl (group_step key init add) [] data
     = map (\<lambda>k. (k, group_acc key init add data k)) (first_seen (map key data))"
proof (induction data rule: rev_induct)
  case Nil
  then show ?case by simp
next
  case (snoc x xs)
  let ?ks = "first_seen (map key xs)"
  let ?k = "key x"
  have fold: "foldl (group_step key init add) [] (xs @ [x])
      = group_step key init add (map (\<lambda>k. (k, group_acc key init add xs k)) ?ks) x"
    by (simp add: snoc.IH)
  show ?case
  proof (cases "?k \<in> set (map key xs)")
    case True
    then have mem: "?k \<in> set ?ks" by simp
    have "group_step key init add (map (\<lambda>k. (k, group_acc key init add xs k)) ?ks) x
        = map (\<lambda>k'. (k', if k' = ?k then add x (group_acc key init add xs k')
                           else group_acc key init add xs k')) ?ks"
      using mem by (simp add: group_step_def Let_def map_of_keyed map_entry_keyed)
    also have "\<dots> = map (\<lambda>k. (k, group_acc key init add (xs @ [x]) k)) ?ks"
      by (intro map_cong) (auto simp: group_acc_snoc)
    finally have step: "group_step key init add (map (\<lambda>k. (k, group_acc key init add xs k)) ?ks) x
        = map (\<lambda>k. (k, group_acc key init add (xs @ [x]) k)) ?ks" .
    have fs: "first_seen (map key (xs @ [x])) = ?ks"
      using True by (simp add: first_seen_snoc)
    show ?thesis by (simp only: fold fs step)
  next
    case False
    then have nmem: "?k \<notin> set ?ks" by simp
    from False have new: "group_acc key init add xs ?k = init ?k"
      by (intro group_acc_new) simp
    have old: "map (\<lambda>k. (k, group_acc key init add xs k)) ?ks
        = map (\<lambda>k. (k, group_acc key init add (xs @ [x]) k)) ?ks"
      using nmem by (intro map_cong) (auto simp: group_acc_snoc)
    have last: "add x (init ?k) = group_acc key init add (xs @ [x]) ?k"
      by (simp add: group_acc_snoc new)
    have "group_step key init add (map (\<lambda>k. (k, group_acc key init add xs k)) ?ks) x
        = map (\<lambda>k. (k, group_acc key init add xs k)) ?ks @ [(?k, add x (init ?k))]"
      using nmem by (simp add: group_step_def Let_def map_of_keyed update_keyed_new map_entry_keyed_last)
    then have step: "group_step key init add (map (\<lambda>k. (k, group_acc key init add xs k)) ?ks) x
        = map (\<lambda>k. (k, group_acc key init add (xs @ [x]) k)) (?ks @ [?k])"
      unfolding old last by simp
    have fs: "first_seen (map key (xs @ [x])) = ?ks @ [?k]"
      using False by (simp add: first_seen_snoc)
    show ?thesis by (simp only: fold fs step)
  qed
qed

lemma region_step_group: "region_step = group_step region region_init region_add"
  by (intro ext) (simp add: region_step_def group_step_def Let_def)

lemma product_step_group: "product_step = group_step product_name product_init product_add"
  by (intro ext) (simp add: product_step_def group_step_def Let_def)

subsection \<open>Aggregation by region\<close>

lemma region_fold_fields:
  "racc_region (foldl (\<lambda>a r. region_add r a) a0 g) = racc_region a0
   \<and> racc_total_sales (foldl (\<lambda>a r. region_add r a) a0 g) = racc_total_sales a0 + int (length g)
   \<and> racc_total_revenue (foldl (\<lambda>a r. region_add r a) a0 g)
       = foldl fadd (racc_total_revenue a0) (map sales_amount g)
   \<and> racc_total_quantity (foldl (\<lambda>a r. region_add r a) a0 g)
       = racc_total_quantity a0 + sum_list (map quantity g)
   \<and> racc_product_count (foldl (\<lambda>a r. region_add r a) a0 g) = racc_product_count a0 + int (length g)"
  by (induction g arbitrary: a0) (simp_all add: region_add_def)

lemma region_group_fields:
  fixes data :: "'a clean_record_scheme list" and k :: string
  defines "a \<equiv> group_acc region region_init region_add data k"
    and "grp \<equiv> filter (\<lambda>r. region r = k) data"
  shows "racc_region a = k" "racc_total_sales a = int (length grp)"
    "racc_total_revenue a = foldl fadd (Fin 0) (map sales_amount grp)"
    "racc_total_quantity a = sum_list (map quantity grp)"
    "racc_product_count a = int (length grp)"
  using region_fold_fields [of "region_init k" grp]
  by (simp_all add: a_def grp_def group_acc_def region_init_def)

lemma region_averages_fields:
  assumes "region_averages a = Inr row"
  shows "rg_region row = racc_region a" "rg_total_sales row = racc_total_sales a"
    "rg_total_revenue row = racc_total_revenue a" "rg_total_quantity row = racc_total_quantity a"
    "rg_product_count row = racc_product_count a"
    "0 < racc_total_sales a \<Longrightarrow>
       (\<exists>av. fdiv_int (racc_total_revenue a) (racc_total_sales a) = Inr av
             \<and> rg_avg_sale_amount row = PyFloat av)
       \<and> (\<exists>aq. int_truediv (racc_total_quantity a) (racc_total_sales a) = Inr aq
             \<and> rg_avg_quantity row = PyFloat aq)"
  using assms unfolding region_averages_def
  by (auto split: if_splits sum.splits)

lemma region_averages_zero:
  "racc_total_sales a \<le> 0 \<Longrightarrow>
     \<exists>row. region_averages a = Inr row \<and> rg_avg_sale_amount row = PyInt 0
           \<and> rg_avg_quantity row = PyInt 0"
  by (simp add: region_averages_def)

lemma aggregate_sales_by_region_groups:
  "aggregate_sales_by_region data
     = map_err region_averages
         (map (group_acc region region_init region_add data) (first_seen (map region data)))"
  by (simp add: aggregate_sales_by_region_def region_step_group group_fold comp_def)

lemma aggregate_sales_by_region_rows:
  assumes "aggregate_sales_by_region data = Inr rows"
  shows "map rg_region rows = first_seen (map region data)"
    and "row \<in> set rows \<Longrightarrow>
           region_averages (group_acc region region_init region_add data (rg_region row)) = Inr row"
proof -
  let ?acc = "group_acc region region_init region_add data"
  from assms have all: "list_all2 (\<lambda>k row. region_averages (?acc k) = Inr row)
      (first_seen (map region data)) rows"
    by (simp add: aggregate_sales_by_region_groups map_err_Inr list_all2_map1)
  then have key: "list_all2 (\<lambda>k row. rg_region row = k) (first_seen (map region data)) rows"
    by (rule list_all2_mono)
       (simp add: region_averages_fields(1) region_group_fields(1))
  then show names: "map rg_region rows = first_seen (map region data)"
    by (induction rule: list_all2_induct) simp_all
  assume "row \<in> set rows"
  with all obtain k where "region_averages (?acc k) = Inr row"
    by (auto simp: list_all2_conv_all_nth in_set_conv_nth)
  moreover from this have "rg_region row = k"
    by (simp add: region_averages_fields(1) region_group_fields(1))
  ultimately show "region_averages (?acc (rg_region row)) = Inr row" by simp
qed

text \<open>
  Claim C3.  The rows that \<open>aggregate_sales_by_region\<close> returns are one row for each
  distinct region of the input.  In the row of a region, \<open>total_sales\<close> and
  \<open>product_count\<close> are the number of records of the region, \<open>total_revenue\<close> is the sum
  of their amounts (accumulated from \<open>0.0\<close> in the order of the input),
  \<open>total_quantity\<close> the sum of their quantities, \<open>avg_sale_amount\<close> the quotient
  \<open>total_revenue / total_sales\<close> and \<open>avg_quantity\<close> the quotient
  \<open>total_quantity / total_sales\<close>.  For an entry with no sales the two averages are
  the int 0 and nothing is divided.
\<close>

theorem aggregate_sales_by_region_spec:
  assumes "aggregate_sales_by_region data = Inr rows"
  shows "distinct (map rg_region rows) \<and> set (map rg_region rows) = region ` set data
     \<and> (\<forall>row \<in> set rows.
           rg_total_sales row = int (length (filter (\<lambda>r. region r = rg_region row) data))
         \<and> rg_total_revenue row
             = foldl fadd (Fin 0) (map sales_amount (filter (\<lambda>r. region r = rg_region row) data))
         \<and> rg_total_quantity row
             = sum_list (map quantity (filter (\<lambda>r. region r = rg_region row) data))
         \<and> rg_product_count row = int (length (filter (\<lambda>r. region r = rg_region row) data))
         \<and> (\<exists>av. fdiv_int (rg_total_revenue row) (rg_total_sales row) = Inr av
                 \<and> rg_avg_sale_amount row = PyFloat av)
         \<and> (\<exists>aq. int_truediv (rg_total_quantity row) (rg_total_sales row) = Inr aq
                 \<and> rg_avg_quantity row = PyFloat aq))
     \<and> (\<forall>a. racc_total_sales a \<le> 0 \<longrightarrow>
           (\<exists>row. region_averages a = Inr row \<and> rg_avg_sale_amount row = PyInt 0
                  \<and> rg_avg_quantity row = PyInt 0))"
proof (intro conjI ballI allI impI)
  note names = aggregate_sales_by_region_rows(1) [OF assms]
  show "distinct (map rg_region rows)" by (simp add: names)
  show "set (map rg_region rows) = region ` set data" by (simp add: names)
next
  fix a :: region_acc assume "racc_total_sales a \<le> 0"
  then show "\<exists>row. region_averages a = Inr row \<and> rg_avg_sale_amount row = PyInt 0
                  \<and> rg_avg_quantity row = PyInt 0"
    by (rule region_averages_zero)
next
  fix row assume row: "row \<in> set rows"
  let ?k = "rg_region row"
  let ?a = "group_acc region region_init region_add data ?k"
  let ?grp = "filter (\<lambda>r. region r = ?k) data"
  note av = aggregate_sales_by_region_rows(2) [OF assms row]
  note f = region_averages_fields [OF av]
  note g = region_group_fields [of data ?k]
  from row have "?k \<in> set (map rg_region rows)" by simp
  then have "?k \<in> region ` set data"
    by (simp add: aggregate_sales_by_region_rows(1) [OF assms])
  then have "?grp \<noteq> []" by (auto simp: filter_empty_conv)
  then have pos: "0 < racc_total_sales ?a" by (simp add: g(2))
  show "rg_total_sales row = int (length ?grp)" by (simp add: f(2) g(2))
  show "rg_total_revenue row = foldl fadd (Fin 0) (map sales_amount ?grp)" by (simp add: f(3) g(3))
  show "rg_total_quantity row = sum_list (map quantity ?grp)" by (simp add: f(4) g(4))
  show "rg_product_count row = int (length ?grp)" by (simp add: f(5) g(5))
  from f(6) [OF pos]
  show "\<exists>av. fdiv_int (rg_total_revenue row) (rg_total_sales row) = Inr av
                 \<and> rg_avg_sale_amount row = PyFloat av"
    by (simp add: f(2) f(3))
  from f(6) [OF pos]
  show "\<exists>aq. int_truediv (rg_total_quantity row) (rg_total_sales row) = Inr aq
                 \<and> rg_avg_quantity row = PyFloat aq"
    by (simp add: f(2) f(4))
qed

text \<open>The North example: one row with 2 sales, revenue 150, quantity 3, averages 75 and 1.5.\<close>

lemma aggregate_north: "aggregate_sales_by_region north_sales = Inr [north_row]"
  by code_simp

theorem aggregate_sales_by_region_spec_witness:
  "aggregate_sales_by_region north_sales = Inr [north_row]
   \<and> rg_region north_row = ''North'' \<and> rg_total_sales north_row = 2
   \<and> rg_total_revenue north_row = Fin 150 \<and> rg_total_quantity north_row = 3
   \<and> rg_avg_sale_amount north_row = PyFloat (Fin 75)
   \<and> rg_avg_quantity north_row = PyFloat (Fin (3 / 2))
   \<and> set (map rg_region [north_row]) = region ` set north_sales"
  using aggregate_sales_by_region_spec [OF aggregate_north]
  by (simp add: aggregate_north north_row_def)

subsection \<open>Floats that are not negative\<close>

lemma pow2_pos: "0 < pow2 k"
  by (simp add: pow2_def)

lemma round_half_even_nonneg: "0 \<le> q \<Longrightarrow> 0 \<le> round_half_even q"
proof -
  assume "0 \<le> q"
  then have "0 \<le> \<lfloor>q\<rfloor>" by simp
  then show ?thesis by (simp add: round_half_even_def Let_def)
qed

lemma round_double_pos: "0 < q \<Longrightarrow> fle (Fin 0) (round_double q)"
proof -
  assume q: "0 < q"
  let ?ulp = "pow2 (max (ilog2 \<bar>q\<bar>) (- 1022) - 52)"
  have "0 \<le> \<bar>q\<bar> / ?ulp" using pow2_pos [of "max (ilog2 \<bar>q\<bar>) (- 1022) - 52"] by simp
  then have "0 \<le> round_half_even (\<bar>q\<bar> / ?ulp)" by (rule round_half_even_nonneg)
  then have "0 \<le> (of_int (round_half_even (\<bar>q\<bar> / ?ulp)) :: rat) * ?ulp"
    using pow2_pos [of "max (ilog2 \<bar>q\<bar>) (- 1022) - 52"] by simp
  with q show ?thesis by (simp add: round_double_def Let_def)
qed

lemma fadd_nonneg: "fle (Fin 0) a \<Longrightarrow> fgt0 b \<Longrightarrow> fle (Fin 0) (fadd a b)"
proof (cases a; cases b)
  fix r s assume "a = Fin r" "b = Fin s" "fle (Fin 0) a" "fgt0 b"
  then show ?thesis using round_double_pos [of "r + s"] by (simp add: fgt0_def flt_def)
qed (simp_all add: fgt0_def flt_def)

lemma foldl_fadd_nonneg:
  "fle (Fin 0) a \<Longrightarrow> \<forall>x \<in> set xs. fgt0 x \<Longrightarrow> fle (Fin 0) (foldl fadd a xs)"
  by (induction xs arbitrary: a) (simp_all add: fadd_nonneg)

lemma fle_not_NaN: "fle x y \<Longrightarrow> x \<noteq> NaN \<and> y \<noteq> NaN"
  by (cases x; cases y) simp_all

subsection \<open>The order of the floats that are not NaN\<close>

lemma fle_total: "x \<noteq> NaN \<Longrightarrow> y \<noteq> NaN \<Longrightarrow> fle x y \<or> fle y x"
  by (cases x; cases y) auto

lemma fle_trans: "fle x y \<Longrightarrow> fle y z \<Longrightarrow> fle x z"
  by (cases x; cases y; cases z) auto

lemma fle_refl: "x \<noteq> NaN \<Longrightarrow> fle x x"
  by (cases x) auto

lemma not_flt_fle: "x \<noteq> NaN \<Longrightarrow> y \<noteq> NaN \<Longrightarrow> \<not> flt x y \<Longrightarrow> fle y x"
  using fle_total [of x y] fle_refl [of x] by (auto simp: flt_def)

subsection \<open>The stable sort into descending order\<close>

lemma set_insert_desc [simp]: "set (insert_desc key x ys) = insert x (set ys)"
  by (induction ys) auto

lemma mset_insert_desc [simp]: "mset (insert_desc key x ys) = add_mset x (mset ys)"
  by (induction ys) auto

lemma mset_sort_reverse [simp]: "mset (sort_reverse key xs) = mset xs"
  by (induction xs) (simp_all add: sort_reverse_def)

lemma set_sort_reverse [simp]: "set (sort_reverse key xs) = set xs"
  using mset_sort_reverse [of key xs] by (metis set_mset_mset)

lemma filter_insert_desc:
  "filter (\<lambda>y. key y = v) (insert_desc key x ys)
     = (if key x = v then x # filter (\<lambda>y. key y = v) ys else filter (\<lambda>y. key y = v) ys)"
  by (induction ys) (auto simp: flt_def)

lemma filter_sort_reverse:
  "filter (\<lambda>y. key y = v) (sort_reverse key xs) = filter (\<lambda>y. key y = v) xs"
  by (induction xs) (simp_all add: sort_reverse_def filter_insert_desc)

lemma sorted_insert_desc:
  assumes "sorted_wrt (\<lambda>a b. fle (key b) (key a)) ys"
    and "key x \<noteq> NaN" and "\<forall>y \<in> set ys. key y \<noteq> NaN"
  shows "sorted_wrt (\<lambda>a b. fle (key b) (key a)) (insert_desc key x ys)"
  using assms
proof (induction ys)
  case Nil
  then show ?case by simp
next
  case (Cons y ys)
  show ?case
  proof (cases "flt (key x) (key y)")
    case True
    then have "fle (key x) (key y)" by (simp add: flt_def)
    with True Cons show ?thesis by auto
  next
    case False
    with Cons.prems have xy: "fle (key y) (key x)" by (intro not_flt_fle) simp_all
    have "\<forall>z \<in> set ys. fle (key z) (key x)"
      using Cons.prems(1) xy by (auto intro: fle_trans)
    with False xy Cons.prems(1) show ?thesis by simp
  qed
qed

lemma sorted_sort_reverse:
  "\<forall>x \<in> set xs. key x \<noteq> NaN \<Longrightarrow> sorted_wrt (\<lambda>a b. fle (key b) (key a)) (sort_reverse key xs)"
proof (induction xs)
  case Nil
  then show ?case by (simp add: sort_reverse_def)
next
  case (Cons x xs)
  then have "sorted_wrt (\<lambda>a b. fle (key b) (key a)) (sort_reverse key xs)" by simp
  then have "sorted_wrt (\<lambda>a b. fle (key b) (key a)) (insert_desc key x (sort_reverse key xs))"
    using Cons.prems by (intro sorted_insert_desc) simp_all
  then show ?case by (simp add: sort_reverse_def)
qed

subsection \<open>Aggregation by product\<close>

lemma product_fold_fields:
  "pacc_product_name (foldl (\<lambda>a r. product_add r a) a0 g) = pacc_product_name a0
   \<and> pacc_total_sales (foldl (\<lambda>a r. product_add r a) a0 g) = pacc_total_sales a0 + int (length g)
   \<and> pacc_total_revenue (foldl (\<lambda>a r. product_add r a) a0 g)
       = foldl fadd (pacc_total_revenue a0) (map sales_amount g)
   \<and> pacc_total_quantity (foldl (\<lambda>a r. product_add r a) a0 g)
       = pacc_total_quantity a0 + sum_list (map quantity g)
   \<and> pacc_regions (foldl (\<lambda>a r. product_add r a) a0 g) = pacc_regions a0 \<union> region ` set g"
  by (induction g arbitrary: a0) (simp_all add: product_add_def)

lemma product_group_fields:
  fixes data :: "'a clean_record_scheme list" and k :: string
  defines "a \<equiv> group_acc product_name product_init product_add data k"
    and "grp \<equiv> filter (\<lambda>r. product_name r = k) data"
  shows "pacc_product_name a = k" "pacc_total_sales a = int (length grp)"
    "pacc_total_revenue a = foldl fadd (Fin 0) (map sales_amount grp)"
    "pacc_total_quantity a = sum_list (map quantity grp)"
    "pacc_regions a = region ` set grp"
  using product_fold_fields [of "product_init k" grp]
  by (simp_all add: a_def grp_def group_acc_def product_init_def)

lemma product_averages_fields:
  assumes "product_averages a = Inr row"
  shows "pd_product_name row = pacc_product_name a" "pd_total_sales row = pacc_total_sales a"
    "pd_total_revenue row = pacc_total_revenue a" "pd_total_quantity row = pacc_total_quantity a"
    "pd_region_count row = int (card (pacc_regions a))"
    "0 < pacc_total_sales a \<Longrightarrow>
       (\<exists>av. fdiv_int (pacc_total_revenue a) (pacc_total_sales a) = Inr av
             \<and> pd_avg_sale_amount row = PyFloat av)
       \<and> (\<exists>aq. int_truediv (pacc_total_quantity a) (pacc_total_sales a) = Inr aq
             \<and> pd_avg_quantity row = PyFloat aq)"
  using assms unfolding product_averages_def
  by (auto split: if_splits sum.splits)

lemma aggregate_sales_by_product_groups:
  "aggregate_sales_by_product data
     = (case map_err product_averages
               (map (group_acc product_name product_init product_add data)
                  (first_seen (map product_name data))) of
          Inl e \<Rightarrow> Inl e
        | Inr result \<Rightarrow> Inr (sort_reverse pd_total_revenue result))"
  by (simp add: aggregate_sales_by_product_def product_step_group group_fold comp_def)

lemma aggregate_sales_by_product_unsorted:
  assumes "aggregate_sales_by_product data = Inr rows"
  obtains unsorted where
    "rows = sort_reverse pd_total_revenue unsorted"
    "list_all2 (\<lambda>k row. product_averages (group_acc product_name product_init product_add data k) = Inr row)
       (first_seen (map product_name data)) unsorted"
  using assms unfolding aggregate_sales_by_product_groups
  by (auto split: sum.splits simp: map_err_Inr list_all2_map1)

lemma unsorted_names:
  assumes "list_all2 (\<lambda>k row. product_averages (group_acc product_name product_init product_add data k) = Inr row)
       ks unsorted"
  shows "map pd_product_name unsorted = ks"
  using assms
  by (induction rule: list_all2_induct)
     (simp_all add: product_averages_fields(1) product_group_fields(1))

lemma unsorted_row:
  assumes "list_all2 (\<lambda>k row. product_averages (group_acc product_name product_init product_add data k) = Inr row)
       ks unsorted" and "row \<in> set unsorted"
  shows "product_averages (group_acc product_name product_init product_add data (pd_product_name row))
           = Inr row"
proof -
  from assms obtain k where k: "product_averages (group_acc product_name product_init product_add data k) = Inr row"
    by (auto simp: list_all2_conv_all_nth in_set_conv_nth)
  then have "pd_product_name row = k"
    by (simp add: product_averages_fields(1) product_group_fields(1))
  with k show ?thesis by simp
qed

text \<open>
  Claim C4.  For clean records (every amount is positive), the rows that
  \<open>aggregate_sales_by_product\<close> returns are one row for each distinct product name;
  \<open>region_count\<close> is the number of distinct regions among the records of the product,
  not the number of those records; the rows are in descending order of
  \<open>total_revenue\<close>, and rows with the same revenue keep the order in which their
  products first occur in the input: the result is a rearrangement of the rows taken
  in the order of first occurrence that keeps, for every revenue, the rows of that
  revenue in that order.
\<close>

theorem aggregate_sales_by_product_spec:
  assumes "aggregate_sales_by_product data = Inr rows"
    and "\<forall>r \<in> set data. fgt0 (sales_amount r)"
  shows "distinct (map pd_product_name rows)
     \<and> set (map pd_product_name rows) = product_name ` set data
     \<and> (\<forall>row \<in> set rows.
           pd_region_count row
             = int (card (region ` {r \<in> set data. product_name r = pd_product_name row})))
     \<and> sorted_wrt (\<lambda>a b. fle (pd_total_revenue b) (pd_total_revenue a)) rows
     \<and> (\<exists>unsorted. map pd_product_name unsorted = first_seen (map product_name data)
           \<and> mset rows = mset unsorted
           \<and> (\<forall>v. filter (\<lambda>row. pd_total_revenue row = v) rows
                    = filter (\<lambda>row. pd_total_revenue row = v) unsorted))"
proof -
  from aggregate_sales_by_product_unsorted [OF assms(1)] obtain unsorted where
    rows: "rows = sort_reverse pd_total_revenue unsorted"
    and all: "list_all2 (\<lambda>k row. product_averages (group_acc product_name product_init product_add data k) = Inr row)
       (first_seen (map product_name data)) unsorted"
    by blast
  note names = unsorted_names [OF all]
  have ms: "mset rows = mset unsorted" by (simp add: rows)
  then have st: "set rows = set unsorted" by (metis set_mset_mset)
  have d: "distinct (map pd_product_name unsorted)" by (simp add: names)
  have "mset (map pd_product_name rows) = mset (map pd_product_name unsorted)"
    using ms by simp
  then have dist: "distinct (map pd_product_name rows)"
    using d by (metis distinct_count_atmost_1 set_mset_mset)
  have keys: "set (map pd_product_name rows) = product_name ` set data"
    using names st by (metis set_map set_first_seen)
  have count: "\<forall>row \<in> set rows.
           pd_region_count row
             = int (card (region ` {r \<in> set data. product_name r = pd_product_name row}))"
  proof
    fix row assume "row \<in> set rows"
    then have "row \<in> set unsorted" by (simp add: st)
    note av = unsorted_row [OF all this]
    have "set (filter (\<lambda>r. product_name r = pd_product_name row) data)
        = {r \<in> set data. product_name r = pd_product_name row}" by auto
    then show "pd_region_count row
             = int (card (region ` {r \<in> set data. product_name r = pd_product_name row}))"
      by (simp add: product_averages_fields(5) [OF av] product_group_fields(5))
  qed
  have nn: "\<forall>row \<in> set unsorted. pd_total_revenue row \<noteq> NaN"
  proof
    fix row assume r: "row \<in> set unsorted"
    note av = unsorted_row [OF all r]
    have "fle (Fin 0) (foldl fadd (Fin 0)
            (map sales_amount (filter (\<lambda>r. product_name r = pd_product_name row) data)))"
      using assms(2) by (intro foldl_fadd_nonneg) auto
    then have "fle (Fin 0) (pd_total_revenue row)"
      by (simp add: product_averages_fields(3) [OF av] product_group_fields(3))
    then show "pd_total_revenue row \<noteq> NaN" by (simp add: fle_not_NaN)
  qed
  have sorted: "sorted_wrt (\<lambda>a b. fle (pd_total_revenue b) (pd_total_revenue a)) rows"
    unfolding rows using nn by (rule sorted_sort_reverse)
  have stable: "\<forall>v. filter (\<lambda>row. pd_total_revenue row = v) rows
                    = filter (\<lambda>row. pd_total_revenue row = v) unsorted"
    by (simp add: rows filter_sort_reverse)
  from names ms stable
  have "\<exists>unsorted. map pd_product_name unsorted = first_seen (map product_name data)
           \<and> mset rows = mset unsorted
           \<and> (\<forall>v. filter (\<lambda>row. pd_total_revenue row = v) rows
                    = filter (\<lambda>row. pd_total_revenue row = v) unsorted)"
    by blast
  with dist keys count sorted show ?thesis by (intro conjI)
qed

text \<open>
  Six records: the mouse occurs three times in two regions, and the laptop comes before
  the keyboard, which has the same revenue.
\<close>

lemma aggregate_products: "aggregate_sales_by_product product_sales = Inr product_rows"
  by code_simp

lemma product_sales_positive: "\<forall>r \<in> set product_sales. fgt0 (sales_amount r)"
  by code_simp

theorem aggregate_sales_by_product_spec_witness:
  "aggregate_sales_by_product product_sales = Inr product_rows
   \<and> map pd_product_name product_rows = [''Monitor'', ''Mouse'', ''Laptop'', ''Keyboard'']
   \<and> map pd_total_revenue product_rows = [Fin 300, Fin 110, Fin 100, Fin 100]
   \<and> map pd_region_count product_rows = [1, 2, 1, 1]
   \<and> sorted_wrt (\<lambda>a b. fle (pd_total_revenue b) (pd_total_revenue a)) product_rows"
  using aggregate_sales_by_product_spec [OF aggregate_products product_sales_positive]
  by (simp add: aggregate_products product_rows_def)

end
